theory Spec2Isabelle
  imports Main "HOL-Library.Sublist" "HOL-Library.Log_Nat"
begin

section \<open>Runtime values\<close>

text \<open>
  Strings are \<^typ>\<open>string\<close>, and a character is a code unit below 256 read as
  ISO-8859-1 (Latin-1): \<open>CHR 0xC4\<close> is the letter A with diaeresis. On these strings
  \<open>toLowerCase\<close> is the runtime's: it folds \<open>A\<close> to \<open>Z\<close> (65 to 90) and the capital
  letters from 192 to 222, all but the multiplication sign 215, onto the letter 32 places
  further, and leaves every other character alone. \<open>toUpperCase\<close> folds the other way;
  the three small letters whose capital is not one Latin-1 character (181, 223 and 255)
  stay as they are. The source applies it to digits in base 36 only, where none of them
  occurs.
\<close>

definition lower_char :: "char \<Rightarrow> char" where
  "lower_char c =
     (let n = (of_char c :: nat)
      in if (65 \<le> n \<and> n \<le> 90) \<or> (192 \<le> n \<and> n \<le> 222 \<and> n \<noteq> 215)
         then char_of (n + 32) else c)"

definition upper_char :: "char \<Rightarrow> char" where
  "upper_char c =
     (let n = (of_char c :: nat)
      in if (97 \<le> n \<and> n \<le> 122) \<or> (224 \<le> n \<and> n \<le> 254 \<and> n \<noteq> 247)
         then char_of (n - 32) else c)"

definition toLowerCase :: "string \<Rightarrow> string" where
  "toLowerCase s = map lower_char s"

definition toUpperCase :: "string \<Rightarrow> string" where
  "toUpperCase s = map upper_char s"

text \<open>\<open>s.substring(i, j)\<close>: the characters from index \<open>min i j\<close> up to \<open>max i j\<close>,
  cut at the end of the string.\<close>

definition substring :: "nat \<Rightarrow> nat \<Rightarrow> string \<Rightarrow> string" where
  "substring i j s = take (max i j - min i j) (drop (min i j) s)"

text \<open>A non-negative integer inside a template literal: its decimal digits.\<close>

fun string_of_nat :: "nat \<Rightarrow> string" where
  "string_of_nat n =
     (if n < 10 then [char_of (48 + n)]
      else string_of_nat (n div 10) @ [char_of (48 + n mod 10)])"

declare string_of_nat.simps [simp del]

text \<open>What a \<open>throw\<close> carries: an \<open>Error\<close> object with its message, or some other value.\<close>

datatype thrown = Error string | Other

text \<open>The state of the promise an \<open>async\<close> function returns.\<close>

datatype 'a promise = Resolved 'a | Rejected thrown | Pending

text \<open>
  What one call sees of the browser. \<open>Date.now()\<close> and \<open>Math.random().toString(36)\<close> are
  read several times in one call, so both are given per reading (the k-th call of the
  function body, from 0). \<open>quota_exceeded k\<close> holds when \<open>localStorage.setItem\<close> under
  key \<open>k\<close> throws in this call, \<open>removeItem_throws k\<close> when \<open>localStorage.removeItem\<close>
  under key \<open>k\<close> does.
\<close>

record browser =
  date_now :: "nat \<Rightarrow> nat"
  math_random :: "nat \<Rightarrow> string"
  iso_string :: string
  quota_exceeded :: "string \<Rightarrow> bool"
  removeItem_throws :: "string \<Rightarrow> bool"

section \<open>Mock authentication store\<close>

record StoredUser =
  su_id :: string
  su_email :: string
  su_password :: string
  su_fullName :: string
  su_mobileNumber :: "string option"
  su_avatar :: "string option"
  su_createdAt :: string

text \<open>The object \<open>setCurrentUser\<close> serialises: \<open>{id, email, name, avatar, mobileNumber}\<close>.\<close>

record CurrentUser =
  cu_id :: string
  cu_email :: string
  cu_name :: string
  cu_avatar :: "string option"
  cu_mobileNumber :: "string option"

definition USERS_STORAGE_KEY :: string where
  "USERS_STORAGE_KEY = ''interoo_users''"

definition CURRENT_USER_KEY :: string where
  "CURRENT_USER_KEY = ''interoo_current_user''"

text \<open>
  What \<open>localStorage\<close> holds under a key: nothing (\<open>getItem\<close> returns \<open>null\<close>), a text
  that \<open>JSON.parse\<close> rejects or the empty text, or the JSON text of a value.
  \<open>JSON.parse (JSON.stringify v)\<close> is \<open>v\<close> for the values stored here (a field that is
  \<open>undefined\<close> is left out by \<open>stringify\<close> and reads as \<open>undefined\<close> again).
\<close>

datatype 'a item = Absent | Unparsable | Stored 'a

record localStorage =
  users_item :: "StoredUser list item"
  current_item :: "CurrentUser item"

definition getStoredUsers :: "localStorage \<Rightarrow> StoredUser list" where
  "getStoredUsers st =
     (case users_item st of Absent \<Rightarrow> [] | Unparsable \<Rightarrow> [] | Stored us \<Rightarrow> us)"

definition saveUsers :: "browser \<Rightarrow> localStorage \<Rightarrow> StoredUser list \<Rightarrow> localStorage" where
  "saveUsers b st us =
     (if quota_exceeded b USERS_STORAGE_KEY then st else st\<lparr>users_item := Stored us\<rparr>)"

definition userForStorage :: "StoredUser \<Rightarrow> CurrentUser" where
  "userForStorage user =
     \<lparr>cu_id = su_id user, cu_email = su_email user, cu_name = su_fullName user,
      cu_avatar = su_avatar user, cu_mobileNumber = su_mobileNumber user\<rparr>"

definition setCurrentUser :: "browser \<Rightarrow> localStorage \<Rightarrow> StoredUser \<Rightarrow> localStorage" where
  "setCurrentUser b st user =
     (if quota_exceeded b CURRENT_USER_KEY then st
      else st\<lparr>current_item := Stored (userForStorage user)\<rparr>)"

definition getCurrentUser :: "localStorage \<Rightarrow> CurrentUser option" where
  "getCurrentUser st =
     (case current_item st of Absent \<Rightarrow> None | Unparsable \<Rightarrow> None | Stored u \<Rightarrow> Some u)"

definition logout :: "browser \<Rightarrow> localStorage \<Rightarrow> localStorage" where
  "logout b st =
     (if removeItem_throws b CURRENT_USER_KEY then st else st\<lparr>current_item := Absent\<rparr>)"

definition same_email :: "string \<Rightarrow> StoredUser \<Rightarrow> bool" where
  "same_email email user \<longleftrightarrow> toLowerCase (su_email user) = toLowerCase email"

definition userExists :: "localStorage \<Rightarrow> string \<Rightarrow> bool" where
  "userExists st email = list_ex (same_email email) (getStoredUsers st)"

definition PLACEHOLDER_AVATAR :: string where
  "PLACEHOLDER_AVATAR =
     ''https://images.pexels.com/photos/1043471/pexels-photo-1043471.jpeg?auto=compress&cs=tinysrgb&w=100''"

definition new_user_id :: "browser \<Rightarrow> string" where
  "new_user_id b =
     ''user_'' @ string_of_nat (date_now b 0) @ ''_'' @ substring 2 8 (math_random b 0)"

definition newUser :: "browser \<Rightarrow> string \<Rightarrow> string \<Rightarrow> string \<Rightarrow> string option \<Rightarrow> StoredUser" where
  "newUser b email password fullName mobileNumber =
     \<lparr>su_id = new_user_id b, su_email = toLowerCase email, su_password = password,
      su_fullName = fullName, su_mobileNumber = mobileNumber,
      su_avatar = Some PLACEHOLDER_AVATAR, su_createdAt = iso_string b\<rparr>"

text \<open>\<open>register\<close> and \<open>login\<close> return the promise's state and the storage they leave.\<close>

definition register ::
  "browser \<Rightarrow> localStorage \<Rightarrow> string \<Rightarrow> string \<Rightarrow> string \<Rightarrow> string option
     \<Rightarrow> StoredUser promise \<times> localStorage" where
  "register b st email password fullName mobileNumber =
     (let users = getStoredUsers st in
      case find (same_email email) users of
        Some existingUser \<Rightarrow> (Rejected (Error ''User with this email already exists''), st)
      | None \<Rightarrow>
          (let nu = newUser b email password fullName mobileNumber;
               st1 = saveUsers b st (users @ [nu]);
               st2 = setCurrentUser b st1 nu
           in (Resolved nu, st2)))"

definition login ::
  "browser \<Rightarrow> localStorage \<Rightarrow> string \<Rightarrow> string \<Rightarrow> StoredUser promise \<times> localStorage" where
  "login b st email password =
     (case find (\<lambda>user. same_email email user \<and> su_password user = password)
             (getStoredUsers st) of
        None \<Rightarrow> (Rejected (Error ''Invalid email or password''), st)
      | Some user \<Rightarrow> (Resolved user, setCurrentUser b st user))"

section \<open>Payment-gateway adapter\<close>

subsection \<open>Numbers\<close>

text \<open>
  A JavaScript number is an IEEE-754 double. \<open>Finite m e\<close> is the double \<open>m * 2 ^ e\<close>;
  its canonical form has \<open>2 ^ 52 \<le> \<bar>m\<bar> < 2 ^ 53\<close> and \<open>- 1074 \<le> e \<le> 971\<close>, or
  \<open>\<bar>m\<bar> < 2 ^ 52\<close> and \<open>e = - 1074\<close> (the subnormal numbers and zero), so that two
  canonical numbers are equal exactly when their values are. The two zeros are one value,
  as they are for \<open>===\<close>.
\<close>

datatype number = Finite int int | PosInfinity | NegInfinity | NaN

text \<open>\<open>a / 2 ^ s\<close> rounded to the nearest integer, a tie to the even one.\<close>

definition round_half_even :: "int \<Rightarrow> nat \<Rightarrow> int" where
  "round_half_even a s =
     (let d = 2 ^ s; q = a div d; r = a mod d
      in if d < 2 * r \<or> (2 * r = d \<and> odd q) then q + 1 else q)"

definition finite_or_infinity :: "bool \<Rightarrow> int \<Rightarrow> int \<Rightarrow> number" where
  "finite_or_infinity positive m e =
     (if 971 < e then (if positive then PosInfinity else NegInfinity) else Finite m e)"

text \<open>
  The double nearest to the exact value \<open>n * 2 ^ e\<close>, in canonical form: the 53 leading
  bits of \<open>n\<close> are kept (fewer below \<open>2 ^ - 1022\<close>), the rest is rounded to nearest, a
  tie to even, and a value too large becomes an infinity.
\<close>

definition round_double :: "int \<Rightarrow> int \<Rightarrow> number" where
  "round_double n e =
     (if n = 0 then Finite 0 (- 1074)
      else
        let e' = max (e + bitlen \<bar>n\<bar> - 53) (- 1074) in
        if e' \<le> e then finite_or_infinity (0 < n) (n * 2 ^ nat (e - e')) e'
        else
          let q = round_half_even \<bar>n\<bar> (nat (e' - e)) in
          if q = 2 ^ 53 then finite_or_infinity (0 < n) (sgn n * 2 ^ 52) (e' + 1)
          else finite_or_infinity (0 < n) (sgn n * q) e')"

text \<open>The operator \<open>*\<close> on numbers: the exact product, rounded.\<close>

fun js_times :: "number \<Rightarrow> number \<Rightarrow> number" where
  "js_times (Finite m e) (Finite m' e') = round_double (m * m') (e + e')"
| "js_times NaN y = NaN"
| "js_times x NaN = NaN"
| "js_times (Finite m e) PosInfinity =
     (if m = 0 then NaN else if 0 < m then PosInfinity else NegInfinity)"
| "js_times (Finite m e) NegInfinity =
     (if m = 0 then NaN else if 0 < m then NegInfinity else PosInfinity)"
| "js_times PosInfinity (Finite m e) =
     (if m = 0 then NaN else if 0 < m then PosInfinity else NegInfinity)"
| "js_times NegInfinity (Finite m e) =
     (if m = 0 then NaN else if 0 < m then NegInfinity else PosInfinity)"
| "js_times PosInfinity PosInfinity = PosInfinity"
| "js_times PosInfinity NegInfinity = NegInfinity"
| "js_times NegInfinity PosInfinity = NegInfinity"
| "js_times NegInfinity NegInfinity = PosInfinity"

text \<open>The number an integer literal denotes, such as \<open>100\<close> and \<open>0\<close> in \<open>createOrder\<close>.\<close>

definition num :: "int \<Rightarrow> number" where
  "num n = round_double n 0"

text \<open>\<open>exactly_times k x y\<close>: both numbers are finite and the value of \<open>y\<close> is \<open>k\<close> times
  the value of \<open>x\<close>, with no rounding.\<close>

definition exactly_times :: "int \<Rightarrow> number \<Rightarrow> number \<Rightarrow> bool" where
  "exactly_times k x y =
     (case (x, y) of
        (Finite m e, Finite m' e') \<Rightarrow>
          m' * 2 ^ nat (e' - min e e') = k * m * 2 ^ nat (e - min e e')
      | _ \<Rightarrow> False)"

subsection \<open>Orders and payments\<close>

text \<open>
  \<open>createOrder\<close> multiplies the amount, so its amounts are of type \<^typ>\<open>number\<close>; the
  functions that only copy an amount leave its type open (\<open>'n\<close>). Clock readings and
  counters are natural numbers.
\<close>

record 'n RazorpayOrderRequest =
  req_amount :: 'n
  req_currency :: string
  req_receipt :: string
  req_notes :: "(string \<times> string) list option"

record 'n RazorpayOrderResponse =
  ord_id :: string
  ord_entity :: string
  ord_amount :: 'n
  ord_amount_paid :: 'n
  ord_amount_due :: 'n
  ord_currency :: string
  ord_receipt :: string
  ord_status :: string
  ord_attempts :: nat
  ord_notes :: "(string \<times> string) list"
  ord_created_at :: nat

record 'n PaymentResult =
  pr_success :: bool
  pr_transactionId :: string
  pr_razorpayPaymentId :: "string option"
  pr_razorpayOrderId :: "string option"
  pr_razorpaySignature :: "string option"
  pr_paymentMethod :: string
  pr_amount :: 'n
  pr_timestamp :: nat
  pr_errorMessage :: "string option"

record CustomerInfo =
  ci_name :: string
  ci_email :: string
  ci_contact :: string

text \<open>The \<open>response\<close> object the gateway hands to \<open>handler\<close>.\<close>

record razorpay_response =
  razorpay_payment_id :: "string option"
  razorpay_order_id :: "string option"
  razorpay_signature :: "string option"

datatype script_event = Onload | Onerror | Neither

datatype modal_event = Handler razorpay_response | Ondismiss

text \<open>
  What one call of the adapter meets outside this file: the event of the injected script
  tag, the module \<open>../config/razorpay\<close> (\<open>RAZORPAY_CONFIG.currency\<close>, the verdict of
  \<open>validateRazorpayConfig()\<close>, whether \<open>generateRazorpayOptions\<close> throws), and the hosted
  checkout (whether \<open>new window.Razorpay(..)\<close> or \<open>open()\<close> throws, and the callbacks the
  modal then fires, in order).
\<close>

record checkout =
  script_tag :: script_event
  config_currency :: string
  config_valid :: bool
  options_throw :: "thrown option"
  constructor_throw :: "thrown option"
  open_throw :: "thrown option"
  modal_events :: "modal_event list"

text \<open>\<open>loadRazorpayScript\<close>: the promise and the new value of \<open>isRazorpayLoaded\<close>.\<close>

definition loadRazorpayScript :: "checkout \<Rightarrow> bool \<Rightarrow> bool promise \<times> bool" where
  "loadRazorpayScript c isRazorpayLoaded =
     (if isRazorpayLoaded then (Resolved True, isRazorpayLoaded)
      else case script_tag c of
             Onload \<Rightarrow> (Resolved True, True)
           | Onerror \<Rightarrow> (Resolved False, isRazorpayLoaded)
           | Neither \<Rightarrow> (Pending, isRazorpayLoaded))"

definition createOrder ::
  "checkout \<Rightarrow> browser \<Rightarrow> number RazorpayOrderRequest
     \<Rightarrow> number RazorpayOrderResponse promise" where
  "createOrder c b orderRequest =
     (if \<not> config_valid c then Rejected (Error ''Razorpay configuration is invalid'')
      else Resolved
        \<lparr>ord_id = ''order_'' @ string_of_nat (date_now b 0) @ ''_''
                   @ substring 2 8 (math_random b 0),
         ord_entity = ''order'',
         ord_amount = js_times (req_amount orderRequest) (num 100),
         ord_amount_paid = num 0,
         ord_amount_due = js_times (req_amount orderRequest) (num 100),
         ord_currency = req_currency orderRequest,
         ord_receipt = req_receipt orderRequest,
         ord_status = ''created'',
         ord_attempts = 0,
         ord_notes = (case req_notes orderRequest of None \<Rightarrow> [] | Some notes \<Rightarrow> notes),
         ord_created_at = date_now b 1 div 1000\<rparr>)"

text \<open>The result of the \<open>catch\<close> block of \<open>processUPIPayment\<close>; \<open>k\<close> is the number of
  clock readings taken before it.\<close>

definition upi_failed :: "browser \<Rightarrow> nat \<Rightarrow> 'n \<Rightarrow> thrown \<Rightarrow> 'n PaymentResult" where
  "upi_failed b k amount error =
     \<lparr>pr_success = False,
      pr_transactionId = ''UPI_FAILED_'' @ string_of_nat (date_now b k),
      pr_razorpayPaymentId = None, pr_razorpayOrderId = None, pr_razorpaySignature = None,
      pr_paymentMethod = ''UPI'',
      pr_amount = amount,
      pr_timestamp = date_now b (k + 1),
      pr_errorMessage =
        Some (case error of Error message \<Rightarrow> message | Other \<Rightarrow> ''UPI payment failed'')\<rparr>"

definition upi_handler :: "browser \<Rightarrow> 'n \<Rightarrow> razorpay_response \<Rightarrow> 'n PaymentResult" where
  "upi_handler b amount response =
     \<lparr>pr_success = True,
      pr_transactionId = ''UPI_'' @ string_of_nat (date_now b 2) @ ''_''
                          @ toUpperCase (substring 2 8 (math_random b 1)),
      pr_razorpayPaymentId = razorpay_payment_id response,
      pr_razorpayOrderId = razorpay_order_id response,
      pr_razorpaySignature = razorpay_signature response,
      pr_paymentMethod = ''UPI'',
      pr_amount = amount,
      pr_timestamp = date_now b 3,
      pr_errorMessage = None\<rparr>"

definition upi_ondismiss :: "browser \<Rightarrow> 'n \<Rightarrow> 'n PaymentResult" where
  "upi_ondismiss b amount =
     \<lparr>pr_success = False,
      pr_transactionId = ''UPI_CANCELLED_'' @ string_of_nat (date_now b 2),
      pr_razorpayPaymentId = None, pr_razorpayOrderId = None, pr_razorpaySignature = None,
      pr_paymentMethod = ''UPI'',
      pr_amount = amount,
      pr_timestamp = date_now b 3,
      pr_errorMessage = Some ''Payment cancelled by user''\<rparr>"

text \<open>
  \<open>return new Promise(executor)\<close>: an exception of the executor rejects the new promise;
  otherwise the first callback of the modal settles it, and later ones change nothing.
  The \<open>async\<close> function returns this promise without awaiting it, so its rejection is
  the rejection of the call and never reaches the \<open>catch\<close> block.
\<close>

definition modal_promise :: "checkout \<Rightarrow> browser \<Rightarrow> 'n \<Rightarrow> 'n PaymentResult promise" where
  "modal_promise c b amount =
     (case constructor_throw c of
        Some error \<Rightarrow> Rejected error
      | None \<Rightarrow>
         (case open_throw c of
            Some error \<Rightarrow> Rejected error
          | None \<Rightarrow>
             (case modal_events c of
                [] \<Rightarrow> Pending
              | Handler response # later \<Rightarrow> Resolved (upi_handler b amount response)
              | Ondismiss # later \<Rightarrow> Resolved (upi_ondismiss b amount))))"

definition processUPIPayment ::
  "checkout \<Rightarrow> browser \<Rightarrow> bool \<Rightarrow> number \<Rightarrow> CustomerInfo \<Rightarrow> string
     \<Rightarrow> number PaymentResult promise" where
  "processUPIPayment c b isRazorpayLoaded amount customerInfo orderId =
     (case fst (loadRazorpayScript c isRazorpayLoaded) of
        Pending \<Rightarrow> Pending
      | Rejected error \<Rightarrow> Resolved (upi_failed b 0 amount error)
      | Resolved scriptLoaded \<Rightarrow>
         if \<not> scriptLoaded
         then Resolved (upi_failed b 0 amount (Error ''Failed to load Razorpay payment gateway''))
         else
          (case createOrder c b
                  \<lparr>req_amount = amount, req_currency = config_currency c,
                   req_receipt = orderId,
                   req_notes = Some [(''payment_method'', ''upi''),
                                     (''customer_name'', ci_name customerInfo)]\<rparr> of
             Pending \<Rightarrow> Pending
           | Rejected error \<Rightarrow> Resolved (upi_failed b 0 amount error)
           | Resolved razorpayOrder \<Rightarrow>
              (case options_throw c of
                 Some error \<Rightarrow> Resolved (upi_failed b 2 amount error)
               | None \<Rightarrow> modal_promise c b amount)))"

definition processCODPayment ::
  "browser \<Rightarrow> 'n \<Rightarrow> CustomerInfo \<Rightarrow> string \<Rightarrow> 'n PaymentResult promise" where
  "processCODPayment b amount customerInfo orderId =
     Resolved
       \<lparr>pr_success = True,
        pr_transactionId = ''COD_'' @ string_of_nat (date_now b 0) @ ''_''
                            @ toUpperCase (substring 2 8 (math_random b 0)),
        pr_razorpayPaymentId = None, pr_razorpayOrderId = None, pr_razorpaySignature = None,
        pr_paymentMethod = ''Cash on Delivery'',
        pr_amount = amount,
        pr_timestamp = date_now b 1,
        pr_errorMessage = None\<rparr>"

record payment_status =
  ps_id :: string
  ps_status :: string
  ps_amount :: int
  ps_currency :: string
  ps_method :: string
  ps_captured :: bool
  ps_created_at :: nat

definition getPaymentStatus :: "browser \<Rightarrow> string \<Rightarrow> payment_status promise" where
  "getPaymentStatus b paymentId =
     Resolved
       \<lparr>ps_id = paymentId, ps_status = ''captured'', ps_amount = 100000,
        ps_currency = ''INR'', ps_method = ''upi'', ps_captured = True,
        ps_created_at = date_now b 0 div 1000\<rparr>"

section \<open>QR countdown of the UPI payment view\<close>

datatype UPIPaymentMode = Selection | Apps | Qr

text \<open>
  The state of \<open>StreamlinedUPIPayment\<close> that the countdown reads and writes, and whether
  the interval of the effect is running.
\<close>

record upi_view =
  paymentMode :: UPIPaymentMode
  timer :: int
  isExpired :: bool
  interval_running :: bool

definition initial_view :: upi_view where
  "initial_view =
     \<lparr>paymentMode = Selection, timer = 180, isExpired = False, interval_running = False\<rparr>"

text \<open>
  \<open>setPaymentMode m\<close> and the effect that depends on \<open>paymentMode\<close>: when the mode
  changes, the cleanup clears the interval of the old mode and the effect starts one
  if the new mode is \<open>'qr'\<close>.
\<close>

definition setPaymentMode :: "UPIPaymentMode \<Rightarrow> upi_view \<Rightarrow> upi_view" where
  "setPaymentMode m v =
     (if paymentMode v = m then v else v\<lparr>paymentMode := m, interval_running := (m = Qr)\<rparr>)"

text \<open>The updater passed to \<open>setTimer\<close>, with what it does to the rest of the view.\<close>

definition countdown :: "upi_view \<Rightarrow> upi_view" where
  "countdown v =
     (if timer v \<le> 1 then v\<lparr>timer := 0, isExpired := True, interval_running := False\<rparr>
      else v\<lparr>timer := timer v - 1\<rparr>)"

text \<open>One second passes: the interval's callback runs if the interval is running.\<close>

definition tick :: "upi_view \<Rightarrow> upi_view" where
  "tick v = (if interval_running v then countdown v else v)"

definition resetToSelection :: "upi_view \<Rightarrow> upi_view" where
  "resetToSelection v = (setPaymentMode Selection v)\<lparr>isExpired := False, timer := 180\<rparr>"

section \<open>Example values\<close>

text \<open>A browser whose storage takes every write, one whose storage is full, an empty
  storage and a storage holding one user.\<close>

definition example_browser :: browser where
  "example_browser =
     \<lparr>date_now = (\<lambda>k. 1700000000000 + k), math_random = (\<lambda>k. ''0.4fzyo82mvyr''),
      iso_string = ''2023-11-14T22:13:20.000Z'', quota_exceeded = (\<lambda>key. False),
      removeItem_throws = (\<lambda>key. False)\<rparr>"

definition full_browser :: browser where
  "full_browser = example_browser\<lparr>quota_exceeded := (\<lambda>key. True)\<rparr>"

definition empty_storage :: localStorage where
  "empty_storage = \<lparr>users_item = Absent, current_item = Absent\<rparr>"

definition ann :: StoredUser where
  "ann =
     \<lparr>su_id = ''user_1_abc123'', su_email = ''ann@example.com'', su_password = ''s3cret'',
      su_fullName = ''Ann'', su_mobileNumber = None, su_avatar = Some PLACEHOLDER_AVATAR,
      su_createdAt = ''2023-11-14T22:13:20.000Z''\<rparr>"

definition ann_storage :: localStorage where
  "ann_storage = \<lparr>users_item = Stored [ann], current_item = Absent\<rparr>"


definition session_full_browser :: browser where
  "session_full_browser = example_browser\<lparr>quota_exceeded := (\<lambda>key. key = CURRENT_USER_KEY)\<rparr>"

definition users_full_browser :: browser where
  "users_full_browser = example_browser\<lparr>quota_exceeded := (\<lambda>key. key = USERS_STORAGE_KEY)\<rparr>"

definition example_customer :: CustomerInfo where
  "example_customer =
     \<lparr>ci_name = ''Test Customer'', ci_email = ''test@example.com'', ci_contact = ''9999999999''\<rparr>"

definition dismissing_checkout :: checkout where
  "dismissing_checkout =
     \<lparr>script_tag = Onload, config_currency = ''INR'', config_valid = True,
      options_throw = None, constructor_throw = None, open_throw = None,
      modal_events = [Ondismiss]\<rparr>"

definition stubbed_checkout :: checkout where
  "stubbed_checkout =
     dismissing_checkout\<lparr>constructor_throw := Some (Error ''window.Razorpay is not a constructor'')\<rparr>"

definition example_request :: "number RazorpayOrderRequest" where
  "example_request =
     \<lparr>req_amount = num 1499, req_currency = ''INR'', req_receipt = ''ORD-1'',
      req_notes = None\<rparr>"

text \<open>A browser whose storage refuses \<open>removeItem\<close>, a configuration that does not
  validate, and a request for 19.99: the double nearest to it is
  \<open>5626684784446013 * 2 ^ - 48\<close>.\<close>

definition locked_browser :: browser where
  "locked_browser = example_browser\<lparr>removeItem_throws := (\<lambda>key. True)\<rparr>"

definition invalid_checkout :: checkout where
  "invalid_checkout = dismissing_checkout\<lparr>config_valid := False\<rparr>"

definition paise_request :: "number RazorpayOrderRequest" where
  "paise_request =
     \<lparr>req_amount = Finite 5626684784446013 (- 48), req_currency = ''INR'',
      req_receipt = ''ORD-2'', req_notes = None\<rparr>"

text \<open>A storage holding a user whose email starts with a small a with diaeresis.\<close>

definition aenn :: StoredUser where
  "aenn = ann\<lparr>su_email := CHR 0xE4 # ''nn@example.com''\<rparr>"

definition aenn_storage :: localStorage where
  "aenn_storage = \<lparr>users_item = Stored [aenn], current_item = Absent\<rparr>"

section \<open>Properties of the authentication store\<close>

lemma lower_char_idem: "lower_char (lower_char c) = lower_char c"
  by (simp add: lower_char_def Let_def)

lemma toLowerCase_idem: "toLowerCase (toLowerCase s) = toLowerCase s"
  by (simp add: toLowerCase_def lower_char_idem)

lemma find_None_list_ex: "(find P xs = None) = (\<not> list_ex P xs)"
  by (auto simp add: find_None_iff list_ex_iff)

lemma find_Some_props: "find P xs = Some x \<Longrightarrow> x \<in> set xs \<and> P x"
  by (auto simp add: find_Some_iff)

lemma userExists_find:
  "userExists st email = (find (same_email email) (getStoredUsers st) \<noteq> None)"
  by (simp add: userExists_def find_None_list_ex)

lemma userExists_iff:
  "userExists st email =
     (\<exists>u\<in>set (getStoredUsers st). toLowerCase (su_email u) = toLowerCase email)"
  by (simp add: userExists_def list_ex_iff same_email_def)

lemma register_exists:
  "userExists st email \<Longrightarrow>
     register b st email password fullName mobileNumber =
       (Rejected (Error ''User with this email already exists''), st)"
  by (auto simp add: register_def userExists_find split: option.splits)

lemma register_fresh:
  "\<not> userExists st email \<Longrightarrow>
     register b st email password fullName mobileNumber =
       (Resolved (newUser b email password fullName mobileNumber),
        setCurrentUser b
          (saveUsers b st (getStoredUsers st @ [newUser b email password fullName mobileNumber]))
          (newUser b email password fullName mobileNumber))"
  by (simp add: register_def userExists_find Let_def)

lemma getStoredUsers_setCurrentUser:
  "getStoredUsers (setCurrentUser b st u) = getStoredUsers st"
  by (simp add: getStoredUsers_def setCurrentUser_def)

lemma getStoredUsers_saveUsers:
  "getStoredUsers (saveUsers b st us) =
     (if quota_exceeded b USERS_STORAGE_KEY then getStoredUsers st else us)"
  by (simp add: getStoredUsers_def saveUsers_def)

lemma getCurrentUser_setCurrentUser:
  "getCurrentUser (setCurrentUser b st u) =
     (if quota_exceeded b CURRENT_USER_KEY then getCurrentUser st else Some (userForStorage u))"
  by (simp add: getCurrentUser_def setCurrentUser_def)

lemma current_item_setCurrentUser:
  "current_item (setCurrentUser b st u) =
     (if quota_exceeded b CURRENT_USER_KEY then current_item st else Stored (userForStorage u))"
  by (simp add: setCurrentUser_def)

lemma same_email_cong:
  "toLowerCase e' = toLowerCase e \<Longrightarrow> same_email e' = same_email e"
  by (simp add: same_email_def fun_eq_iff)

lemma same_email_newUser:
  "same_email e' (newUser b e p n m) = (toLowerCase e' = toLowerCase e)"
  by (auto simp add: same_email_def newUser_def toLowerCase_idem)

lemma register_users:
  "getStoredUsers (snd (register b st email password fullName mobileNumber)) =
     (if userExists st email \<or> quota_exceeded b USERS_STORAGE_KEY then getStoredUsers st
      else getStoredUsers st @ [newUser b email password fullName mobileNumber])"
  by (cases "userExists st email")
    (simp_all add: register_exists register_fresh getStoredUsers_setCurrentUser
      getStoredUsers_saveUsers)

lemma login_found:
  "find (\<lambda>user. same_email email user \<and> su_password user = password) (getStoredUsers st) = Some u
     \<Longrightarrow> login b st email password = (Resolved u, setCurrentUser b st u)"
  by (simp add: login_def)

lemma login_not_found:
  "\<not> list_ex (\<lambda>user. same_email email user \<and> su_password user = password) (getStoredUsers st)
     \<Longrightarrow> login b st email password = (Rejected (Error ''Invalid email or password''), st)"
  by (simp add: login_def find_None_list_ex [symmetric])

lemma register_resolved:
  "register b st email password fullName mobileNumber = (Resolved u, st') \<Longrightarrow>
     \<not> userExists st email \<and> u = newUser b email password fullName mobileNumber
     \<and> st' = setCurrentUser b (saveUsers b st (getStoredUsers st @ [u])) u"
  by (cases "userExists st email") (auto simp add: register_exists register_fresh)

lemma login_resolved:
  "login b st email password = (Resolved u, st') \<Longrightarrow>
     u \<in> set (getStoredUsers st) \<and> same_email email u \<and> su_password u = password
     \<and> st' = setCurrentUser b st u"
  by (auto simp add: login_def split: option.splits dest: find_Some_props)



text \<open>
  C1 (amended). \<open>register\<close> rejects with \<open>User with this email already exists\<close> exactly
  when some stored user's email equals the given one after lower-casing both. Otherwise it
  resolves with the new record (generated id, placeholder avatar); when the storage takes
  the write of the user list, the stored list is the old one with exactly this record
  appended, and when it takes the write of the session, \<open>getCurrentUser\<close> returns the new
  user's projection. When the storage took the write of the first call, registering the
  same email again, in any letter case, is rejected.
\<close>

theorem register_spec:
  "(fst (register b st email password fullName mobileNumber) =
       Rejected (Error ''User with this email already exists''))
     = (\<exists>u\<in>set (getStoredUsers st). toLowerCase (su_email u) = toLowerCase email)
   \<and> ((\<forall>u\<in>set (getStoredUsers st). toLowerCase (su_email u) \<noteq> toLowerCase email) \<longrightarrow>
        fst (register b st email password fullName mobileNumber) =
          Resolved (newUser b email password fullName mobileNumber)
        \<and> su_id (newUser b email password fullName mobileNumber) = new_user_id b
        \<and> su_avatar (newUser b email password fullName mobileNumber) = Some PLACEHOLDER_AVATAR
        \<and> (\<not> quota_exceeded b USERS_STORAGE_KEY \<longrightarrow>
             getStoredUsers (snd (register b st email password fullName mobileNumber)) =
               getStoredUsers st @ [newUser b email password fullName mobileNumber])
        \<and> (\<not> quota_exceeded b CURRENT_USER_KEY \<longrightarrow>
             getCurrentUser (snd (register b st email password fullName mobileNumber)) =
               Some (userForStorage (newUser b email password fullName mobileNumber))))
   \<and> (\<not> quota_exceeded b USERS_STORAGE_KEY \<and> toLowerCase email' = toLowerCase email \<longrightarrow>
        fst (register b' (snd (register b st email password fullName mobileNumber))
               email' password' fullName' mobileNumber') =
          Rejected (Error ''User with this email already exists''))"
proof (intro conjI impI)
  show "(fst (register b st email password fullName mobileNumber) =
       Rejected (Error ''User with this email already exists''))
     = (\<exists>u\<in>set (getStoredUsers st). toLowerCase (su_email u) = toLowerCase email)"
    unfolding userExists_iff [symmetric]
    by (cases "userExists st email") (simp_all add: register_exists register_fresh)
next
  assume "\<forall>u\<in>set (getStoredUsers st). toLowerCase (su_email u) \<noteq> toLowerCase email"
  then have fresh: "\<not> userExists st email"
    by (simp add: userExists_iff)
  show "fst (register b st email password fullName mobileNumber) =
          Resolved (newUser b email password fullName mobileNumber)"
    by (simp add: register_fresh [OF fresh])
  show "su_id (newUser b email password fullName mobileNumber) = new_user_id b"
    by (simp add: newUser_def)
  show "su_avatar (newUser b email password fullName mobileNumber) = Some PLACEHOLDER_AVATAR"
    by (simp add: newUser_def)
  show "getStoredUsers (snd (register b st email password fullName mobileNumber)) =
          getStoredUsers st @ [newUser b email password fullName mobileNumber]"
    if "\<not> quota_exceeded b USERS_STORAGE_KEY"
    using fresh that by (simp add: register_users)
  show "getCurrentUser (snd (register b st email password fullName mobileNumber)) =
          Some (userForStorage (newUser b email password fullName mobileNumber))"
    if "\<not> quota_exceeded b CURRENT_USER_KEY"
    using that by (simp add: register_fresh [OF fresh] getCurrentUser_setCurrentUser)
next
  assume a: "\<not> quota_exceeded b USERS_STORAGE_KEY \<and> toLowerCase email' = toLowerCase email"
  let ?st = "snd (register b st email password fullName mobileNumber)"
  have "userExists ?st email"
    using a by (simp add: userExists_def register_users same_email_newUser)
  moreover have "same_email email' = same_email email"
    using a by (intro same_email_cong) simp
  ultimately have "userExists ?st email'"
    by (simp add: userExists_def)
  then show "fst (register b' ?st email' password' fullName' mobileNumber') =
          Rejected (Error ''User with this email already exists'')"
    by (simp add: register_exists)
qed


theorem register_spec_witness:
  "getStoredUsers empty_storage = []
   \<and> fst (register example_browser empty_storage ''Ann@Example.com'' ''s3cret'' ''Ann'' None) =
       Resolved (newUser example_browser ''Ann@Example.com'' ''s3cret'' ''Ann'' None)
   \<and> getStoredUsers (snd (register example_browser empty_storage
         ''Ann@Example.com'' ''s3cret'' ''Ann'' None)) =
       [newUser example_browser ''Ann@Example.com'' ''s3cret'' ''Ann'' None]
   \<and> getCurrentUser (snd (register example_browser empty_storage
         ''Ann@Example.com'' ''s3cret'' ''Ann'' None)) =
       Some (userForStorage (newUser example_browser ''Ann@Example.com'' ''s3cret'' ''Ann'' None))
   \<and> su_email (newUser example_browser ''Ann@Example.com'' ''s3cret'' ''Ann'' None) =
       ''ann@example.com''
   \<and> fst (register example_browser
            (snd (register example_browser empty_storage ''Ann@Example.com'' ''s3cret'' ''Ann'' None))
            ''ANN@example.COM'' ''other'' ''Ann B'' None) =
       Rejected (Error ''User with this email already exists'')"
proof -
  have users: "getStoredUsers empty_storage = []"
    by (simp add: getStoredUsers_def empty_storage_def)
  then have fresh:
    "\<forall>u\<in>set (getStoredUsers empty_storage).
       toLowerCase (su_email u) \<noteq> toLowerCase ''Ann@Example.com''"
    by simp
  have quota: "\<not> quota_exceeded example_browser USERS_STORAGE_KEY"
    "\<not> quota_exceeded example_browser CURRENT_USER_KEY"
    by (simp_all add: example_browser_def)
  have fold: "toLowerCase ''ANN@example.COM'' = toLowerCase ''Ann@Example.com''"
    by code_simp
  have email: "su_email (newUser example_browser ''Ann@Example.com'' ''s3cret'' ''Ann'' None) =
      ''ann@example.com''"
  proof -
    have "toLowerCase ''Ann@Example.com'' = ''ann@example.com''"
      by code_simp
    then show ?thesis
      by (simp add: newUser_def)
  qed
  note spec = register_spec [of example_browser empty_storage "''Ann@Example.com''" "''s3cret''"
        "''Ann''" None "''ANN@example.COM''" example_browser "''other''" "''Ann B''" None]
  from spec fresh have first:
    "fst (register example_browser empty_storage ''Ann@Example.com'' ''s3cret'' ''Ann'' None) =
       Resolved (newUser example_browser ''Ann@Example.com'' ''s3cret'' ''Ann'' None)"
    by blast
  from spec fresh quota have stored:
    "getStoredUsers (snd (register example_browser empty_storage
         ''Ann@Example.com'' ''s3cret'' ''Ann'' None)) =
       getStoredUsers empty_storage @
         [newUser example_browser ''Ann@Example.com'' ''s3cret'' ''Ann'' None]"
    by blast
  from spec fresh quota have session:
    "getCurrentUser (snd (register example_browser empty_storage
         ''Ann@Example.com'' ''s3cret'' ''Ann'' None)) =
       Some (userForStorage (newUser example_browser ''Ann@Example.com'' ''s3cret'' ''Ann'' None))"
    by blast
  from spec quota fold have second:
    "fst (register example_browser
            (snd (register example_browser empty_storage ''Ann@Example.com'' ''s3cret'' ''Ann'' None))
            ''ANN@example.COM'' ''other'' ''Ann B'' None) =
       Rejected (Error ''User with this email already exists'')"
    by blast
  from users first stored session email second show ?thesis
    by (simp only: append_Nil simp_thms)
qed


text \<open>
  With a full storage both writes are swallowed: \<open>register\<close> resolves, the stored list
  stays empty, and registering the same email again resolves again.
\<close>

theorem register_twice_counterexample:
  "fst (register full_browser empty_storage ''ann@example.com'' ''s3cret'' ''Ann'' None) =
     Resolved (newUser full_browser ''ann@example.com'' ''s3cret'' ''Ann'' None)
   \<and> getStoredUsers (snd (register full_browser empty_storage
        ''ann@example.com'' ''s3cret'' ''Ann'' None)) = []
   \<and> fst (register full_browser
            (snd (register full_browser empty_storage ''ann@example.com'' ''s3cret'' ''Ann'' None))
            ''ANN@EXAMPLE.COM'' ''s3cret'' ''Ann'' None) =
       Resolved (newUser full_browser ''ANN@EXAMPLE.COM'' ''s3cret'' ''Ann'' None)"
proof -
  have users: "getStoredUsers empty_storage = []"
    by (simp add: getStoredUsers_def empty_storage_def)
  have ex: "\<not> userExists empty_storage e" for e
    by (simp add: userExists_def users)
  have quota: "quota_exceeded full_browser k" for k
    by (simp add: full_browser_def)
  have st: "snd (register full_browser empty_storage ''ann@example.com'' ''s3cret'' ''Ann'' None)
      = empty_storage"
    by (simp add: register_fresh [OF ex] saveUsers_def setCurrentUser_def quota)
  show ?thesis
    by (simp add: st users) (simp add: register_fresh [OF ex])
qed


lemma login_rejected_iff:
  "(fst (login b st email password) = Rejected (Error ''Invalid email or password'')) =
     (\<not> list_ex (\<lambda>user. same_email email user \<and> su_password user = password) (getStoredUsers st))"
  by (simp add: login_def find_None_list_ex [symmetric] split: option.splits)

lemma credentials_iff:
  "list_ex (\<lambda>user. same_email email user \<and> su_password user = password) (getStoredUsers st) =
     (\<exists>u\<in>set (getStoredUsers st).
        toLowerCase (su_email u) = toLowerCase email \<and> su_password u = password)"
  by (simp add: list_ex_iff same_email_def)

lemma login_cases:
  "login b st email password = (Rejected (Error ''Invalid email or password''), st)
   \<or> (\<exists>u. login b st email password = (Resolved u, setCurrentUser b st u))"
  by (simp add: login_def split: option.splits)

text \<open>
  C2 (amended). \<open>login\<close> resolves exactly when some stored record matches the given
  email after lower-casing both and has a password equal to the given one, character for
  character; without such a record it rejects with \<open>Invalid email or password\<close> and
  leaves the storage alone. The user it resolves with is such a record, and when the
  storage takes the write of the session, \<open>getCurrentUser\<close> returns that user's
  projection.
\<close>

theorem login_spec:
  "(\<exists>u. fst (login b st email password) = Resolved u) =
     (\<exists>u\<in>set (getStoredUsers st).
        toLowerCase (su_email u) = toLowerCase email \<and> su_password u = password)
   \<and> ((\<forall>u\<in>set (getStoredUsers st).
          \<not> (toLowerCase (su_email u) = toLowerCase email \<and> su_password u = password)) \<longrightarrow>
        login b st email password = (Rejected (Error ''Invalid email or password''), st))
   \<and> (fst (login b st email password) = Resolved u \<longrightarrow>
        u \<in> set (getStoredUsers st)
        \<and> toLowerCase (su_email u) = toLowerCase email \<and> su_password u = password
        \<and> (\<not> quota_exceeded b CURRENT_USER_KEY \<longrightarrow>
             getCurrentUser (snd (login b st email password)) = Some (userForStorage u)))"
proof (intro conjI impI)
  show "(\<exists>u. fst (login b st email password) = Resolved u) =
     (\<exists>u\<in>set (getStoredUsers st).
        toLowerCase (su_email u) = toLowerCase email \<and> su_password u = password)"
    unfolding credentials_iff [symmetric]
    using login_cases [of b st email password] login_rejected_iff [of b st email password]
    by auto
next
  assume "\<forall>u\<in>set (getStoredUsers st).
          \<not> (toLowerCase (su_email u) = toLowerCase email \<and> su_password u = password)"
  then have "\<not> list_ex (\<lambda>user. same_email email user \<and> su_password user = password)
      (getStoredUsers st)"
    by (simp add: credentials_iff)
  then show "login b st email password = (Rejected (Error ''Invalid email or password''), st)"
    by (rule login_not_found)
next
  assume r: "fst (login b st email password) = Resolved u"
  then have l: "login b st email password = (Resolved u, setCurrentUser b st u)"
    using login_cases [of b st email password] by auto
  note p = login_resolved [OF l]
  show "u \<in> set (getStoredUsers st)" using p by simp
  show "toLowerCase (su_email u) = toLowerCase email" using p by (simp add: same_email_def)
  show "su_password u = password" using p by simp
  show "getCurrentUser (snd (login b st email password)) = Some (userForStorage u)"
    if "\<not> quota_exceeded b CURRENT_USER_KEY"
    using that by (simp add: l getCurrentUser_setCurrentUser)
qed

lemma login_ann:
  "login b ann_storage ''ANN@Example.com'' ''s3cret'' = (Resolved ann, setCurrentUser b ann_storage ann)"
proof -
  have "toLowerCase ''ANN@Example.com'' = toLowerCase ''ann@example.com''"
    by code_simp
  then show ?thesis
    by (simp add: login_def getStoredUsers_def ann_storage_def same_email_def ann_def)
qed

theorem login_spec_witness:
  "fst (login example_browser ann_storage ''ANN@Example.com'' ''s3cret'') = Resolved ann
   \<and> \<not> quota_exceeded example_browser CURRENT_USER_KEY
   \<and> ann \<in> set (getStoredUsers ann_storage)
   \<and> su_password ann = ''s3cret''
   \<and> getCurrentUser (snd (login example_browser ann_storage ''ANN@Example.com'' ''s3cret'')) =
       Some (userForStorage ann)
   \<and> login example_browser ann_storage ''ANN@Example.com'' ''S3CRET'' =
       (Rejected (Error ''Invalid email or password''), ann_storage)"
proof -
  have ok: "fst (login example_browser ann_storage ''ANN@Example.com'' ''s3cret'') = Resolved ann"
    by (simp add: login_ann)
  have quota: "\<not> quota_exceeded example_browser CURRENT_USER_KEY"
    by (simp add: example_browser_def)
  have wrong: "\<forall>u\<in>set (getStoredUsers ann_storage).
      \<not> (toLowerCase (su_email u) = toLowerCase ''ANN@Example.com'' \<and> su_password u = ''S3CRET'')"
    by (simp add: getStoredUsers_def ann_storage_def ann_def)
  note good = login_spec [of example_browser ann_storage "''ANN@Example.com''" "''s3cret''" ann,
      THEN conjunct2, THEN conjunct2, THEN mp, OF ok]
  note bad = login_spec [of example_browser ann_storage "''ANN@Example.com''" "''S3CRET''" ann,
      THEN conjunct2, THEN conjunct1, THEN mp, OF wrong]
  from good quota have session:
    "getCurrentUser (snd (login example_browser ann_storage ''ANN@Example.com'' ''s3cret'')) =
       Some (userForStorage ann)"
    by (elim conjE) (erule mp)
  note stored = good [THEN conjunct1]
  note password = good [THEN conjunct2, THEN conjunct2, THEN conjunct1]
  from ok quota stored password session bad show ?thesis
    by (intro conjI)
qed

text \<open>With a full storage \<open>login\<close> resolves with the matched user and no session
  is stored.\<close>

theorem login_session_counterexample:
  "fst (login full_browser ann_storage ''ANN@Example.com'' ''s3cret'') = Resolved ann
   \<and> getCurrentUser (snd (login full_browser ann_storage ''ANN@Example.com'' ''s3cret'')) = None"
proof -
  have "quota_exceeded full_browser CURRENT_USER_KEY"
    by (simp add: full_browser_def)
  then have "login full_browser ann_storage ''ANN@Example.com'' ''s3cret'' = (Resolved ann, ann_storage)"
    by (simp add: login_ann setCurrentUser_def)
  moreover have "getCurrentUser ann_storage = None"
    by (simp add: getCurrentUser_def ann_storage_def)
  ultimately show ?thesis
    by simp
qed

text \<open>Letters beyond ASCII fold too: with a user stored under an email that starts
  with a small a with diaeresis, the same email written with the capital letter is a
  duplicate for \<open>register\<close> and a match for \<open>login\<close>.\<close>

lemma toLowerCase_latin1:
  "toLowerCase (CHR 0xC4 # ''nn@example.com'') = CHR 0xE4 # ''nn@example.com''"
  by code_simp

lemma register_latin1_duplicate:
  "register b aenn_storage (CHR 0xC4 # ''nn@example.com'') password fullName mobileNumber =
     (Rejected (Error ''User with this email already exists''), aenn_storage)"
proof -
  have "userExists aenn_storage (CHR 0xC4 # ''nn@example.com'')"
    by code_simp
  then show ?thesis
    by (rule register_exists)
qed

lemma login_latin1_match:
  "fst (login b aenn_storage (CHR 0xC4 # ''nn@example.com'') ''s3cret'') = Resolved aenn"
proof -
  have "find (\<lambda>user. same_email (CHR 0xC4 # ''nn@example.com'') user
          \<and> su_password user = ''s3cret'') (getStoredUsers aenn_storage) = Some aenn"
    by code_simp
  then show ?thesis
    by (simp add: login_found)
qed

lemma current_item_saveUsers:
  "current_item (saveUsers b st us) = current_item st"
  by (simp add: saveUsers_def)

lemma register_ann:
  "register b empty_storage ''Ann@Example.com'' ''s3cret'' ''Ann'' None =
     (Resolved (newUser b ''Ann@Example.com'' ''s3cret'' ''Ann'' None),
      setCurrentUser b
        (saveUsers b empty_storage [newUser b ''Ann@Example.com'' ''s3cret'' ''Ann'' None])
        (newUser b ''Ann@Example.com'' ''s3cret'' ''Ann'' None))"
proof -
  have users: "getStoredUsers empty_storage = []"
    by (simp add: getStoredUsers_def empty_storage_def)
  then have "\<not> userExists empty_storage ''Ann@Example.com''"
    by (simp add: userExists_def)
  then show ?thesis
    using users by (simp add: register_fresh)
qed

text \<open>
  C3 (amended). When the storage takes the write of the session key, after a call of
  \<open>register\<close> or \<open>login\<close> that resolves with a user, the item under the current-user
  key is that user's id, email, name, avatar and phone, and \<open>getCurrentUser\<close> returns it.
  After a call of \<open>logout\<close> in which \<open>removeItem\<close> does not throw, the item is absent
  and \<open>getCurrentUser\<close> returns \<open>null\<close>; when it throws, \<open>logout\<close> leaves the storage as
  it was.
\<close>

theorem session_pointer_spec:
  "(\<not> quota_exceeded b CURRENT_USER_KEY
      \<and> register b st email password fullName mobileNumber = (Resolved u, st') \<longrightarrow>
        current_item st' =
          Stored \<lparr>cu_id = su_id u, cu_email = su_email u, cu_name = su_fullName u,
                  cu_avatar = su_avatar u, cu_mobileNumber = su_mobileNumber u\<rparr>
        \<and> getCurrentUser st' =
          Some \<lparr>cu_id = su_id u, cu_email = su_email u, cu_name = su_fullName u,
                cu_avatar = su_avatar u, cu_mobileNumber = su_mobileNumber u\<rparr>)
   \<and> (\<not> quota_exceeded b CURRENT_USER_KEY
      \<and> login b st email password = (Resolved u, st') \<longrightarrow>
        current_item st' =
          Stored \<lparr>cu_id = su_id u, cu_email = su_email u, cu_name = su_fullName u,
                  cu_avatar = su_avatar u, cu_mobileNumber = su_mobileNumber u\<rparr>
        \<and> getCurrentUser st' =
          Some \<lparr>cu_id = su_id u, cu_email = su_email u, cu_name = su_fullName u,
                cu_avatar = su_avatar u, cu_mobileNumber = su_mobileNumber u\<rparr>)
   \<and> (\<not> removeItem_throws b CURRENT_USER_KEY \<longrightarrow>
        current_item (logout b st) = Absent \<and> getCurrentUser (logout b st) = None)
   \<and> (removeItem_throws b CURRENT_USER_KEY \<longrightarrow> logout b st = st)"
proof (intro conjI impI)
  assume a: "\<not> quota_exceeded b CURRENT_USER_KEY
      \<and> register b st email password fullName mobileNumber = (Resolved u, st')"
  then have st': "st' = setCurrentUser b (saveUsers b st (getStoredUsers st @ [u])) u"
    using register_resolved by blast
  show "current_item st' =
          Stored \<lparr>cu_id = su_id u, cu_email = su_email u, cu_name = su_fullName u,
                  cu_avatar = su_avatar u, cu_mobileNumber = su_mobileNumber u\<rparr>"
    using a by (simp add: st' current_item_setCurrentUser userForStorage_def)
  show "getCurrentUser st' =
          Some \<lparr>cu_id = su_id u, cu_email = su_email u, cu_name = su_fullName u,
                cu_avatar = su_avatar u, cu_mobileNumber = su_mobileNumber u\<rparr>"
    using a by (simp add: st' getCurrentUser_setCurrentUser userForStorage_def)
next
  assume a: "\<not> quota_exceeded b CURRENT_USER_KEY
      \<and> login b st email password = (Resolved u, st')"
  then have st': "st' = setCurrentUser b st u"
    using login_resolved by blast
  show "current_item st' =
          Stored \<lparr>cu_id = su_id u, cu_email = su_email u, cu_name = su_fullName u,
                  cu_avatar = su_avatar u, cu_mobileNumber = su_mobileNumber u\<rparr>"
    using a by (simp add: st' current_item_setCurrentUser userForStorage_def)
  show "getCurrentUser st' =
          Some \<lparr>cu_id = su_id u, cu_email = su_email u, cu_name = su_fullName u,
                cu_avatar = su_avatar u, cu_mobileNumber = su_mobileNumber u\<rparr>"
    using a by (simp add: st' getCurrentUser_setCurrentUser userForStorage_def)
next
  assume "\<not> removeItem_throws b CURRENT_USER_KEY"
  then show "current_item (logout b st) = Absent"
    by (simp add: logout_def)
next
  assume "\<not> removeItem_throws b CURRENT_USER_KEY"
  then show "getCurrentUser (logout b st) = None"
    by (simp add: logout_def getCurrentUser_def)
next
  assume "removeItem_throws b CURRENT_USER_KEY"
  then show "logout b st = st"
    by (simp add: logout_def)
qed

theorem session_pointer_spec_witness:
  "\<not> quota_exceeded example_browser CURRENT_USER_KEY
   \<and> login example_browser ann_storage ''ANN@Example.com'' ''s3cret'' =
       (Resolved ann, setCurrentUser example_browser ann_storage ann)
   \<and> getCurrentUser (setCurrentUser example_browser ann_storage ann) =
       Some \<lparr>cu_id = ''user_1_abc123'', cu_email = ''ann@example.com'', cu_name = ''Ann'',
             cu_avatar = Some PLACEHOLDER_AVATAR, cu_mobileNumber = None\<rparr>
   \<and> getCurrentUser (snd (register example_browser empty_storage
         ''Ann@Example.com'' ''s3cret'' ''Ann'' None)) =
       Some \<lparr>cu_id = new_user_id example_browser, cu_email = ''ann@example.com'',
             cu_name = ''Ann'', cu_avatar = Some PLACEHOLDER_AVATAR, cu_mobileNumber = None\<rparr>
   \<and> \<not> removeItem_throws example_browser CURRENT_USER_KEY
   \<and> getCurrentUser (logout example_browser
         (setCurrentUser example_browser ann_storage ann)) = None
   \<and> removeItem_throws locked_browser CURRENT_USER_KEY
   \<and> logout locked_browser (setCurrentUser example_browser ann_storage ann) =
       setCurrentUser example_browser ann_storage ann"
proof -
  let ?nu = "newUser example_browser ''Ann@Example.com'' ''s3cret'' ''Ann'' None"
  let ?st = "setCurrentUser example_browser (saveUsers example_browser empty_storage [?nu]) ?nu"
  have quota: "\<not> quota_exceeded example_browser CURRENT_USER_KEY"
    by (simp add: example_browser_def)
  have l: "login example_browser ann_storage ''ANN@Example.com'' ''s3cret'' =
       (Resolved ann, setCurrentUser example_browser ann_storage ann)"
    by (rule login_ann)
  have r: "register example_browser empty_storage ''Ann@Example.com'' ''s3cret'' ''Ann'' None =
       (Resolved ?nu, ?st)"
    by (rule register_ann)
  have lower: "toLowerCase ''Ann@Example.com'' = ''ann@example.com''"
    by code_simp
  note after_login =
    session_pointer_spec [of example_browser ann_storage "''ANN@Example.com''" "''s3cret''"
      "''Ann''" None ann "setCurrentUser example_browser ann_storage ann",
      THEN conjunct2, THEN conjunct1, THEN mp, OF conjI, OF quota l, THEN conjunct2]
  note after_register =
    session_pointer_spec [of example_browser empty_storage "''Ann@Example.com''" "''s3cret''"
      "''Ann''" None ?nu ?st,
      THEN conjunct1, THEN mp, OF conjI, OF quota r, THEN conjunct2]
  have removes: "\<not> removeItem_throws example_browser CURRENT_USER_KEY"
    by (simp add: example_browser_def)
  have throws: "removeItem_throws locked_browser CURRENT_USER_KEY"
    by (simp add: locked_browser_def)
  note after_logout =
    session_pointer_spec [of example_browser "setCurrentUser example_browser ann_storage ann",
      THEN conjunct2, THEN conjunct2, THEN conjunct1, THEN mp, OF removes, THEN conjunct2]
  note failed_logout =
    session_pointer_spec [of locked_browser "setCurrentUser example_browser ann_storage ann",
      THEN conjunct2, THEN conjunct2, THEN conjunct2, THEN mp, OF throws]
  have 1: "getCurrentUser (setCurrentUser example_browser ann_storage ann) =
       Some \<lparr>cu_id = ''user_1_abc123'', cu_email = ''ann@example.com'', cu_name = ''Ann'',
             cu_avatar = Some PLACEHOLDER_AVATAR, cu_mobileNumber = None\<rparr>"
    using after_login by (simp add: ann_def)
  have 2: "getCurrentUser (snd (register example_browser empty_storage
         ''Ann@Example.com'' ''s3cret'' ''Ann'' None)) =
       Some \<lparr>cu_id = new_user_id example_browser, cu_email = ''ann@example.com'',
             cu_name = ''Ann'', cu_avatar = Some PLACEHOLDER_AVATAR, cu_mobileNumber = None\<rparr>"
    using after_register by (simp add: r newUser_def lower)
  from quota l 1 2 removes after_logout throws failed_logout show ?thesis
    by (intro conjI)
qed

text \<open>With a storage that refuses the session key, \<open>register\<close> resolves and stores the
  user, and no session is stored. With a storage that refuses \<open>removeItem\<close>, the session
  is still there after \<open>logout\<close>.\<close>

theorem register_session_counterexample:
  "fst (register session_full_browser empty_storage ''Ann@Example.com'' ''s3cret'' ''Ann'' None) =
     Resolved (newUser session_full_browser ''Ann@Example.com'' ''s3cret'' ''Ann'' None)
   \<and> current_item (snd (register session_full_browser empty_storage
        ''Ann@Example.com'' ''s3cret'' ''Ann'' None)) = Absent
   \<and> getCurrentUser (snd (register session_full_browser empty_storage
        ''Ann@Example.com'' ''s3cret'' ''Ann'' None)) = None
   \<and> getCurrentUser (logout locked_browser
        (setCurrentUser example_browser ann_storage ann)) = Some (userForStorage ann)"
proof -
  have "quota_exceeded session_full_browser CURRENT_USER_KEY"
    by (simp add: session_full_browser_def)
  moreover have "current_item empty_storage = Absent"
    by (simp add: empty_storage_def)
  ultimately have registered:
    "fst (register session_full_browser empty_storage ''Ann@Example.com'' ''s3cret'' ''Ann'' None) =
       Resolved (newUser session_full_browser ''Ann@Example.com'' ''s3cret'' ''Ann'' None)
     \<and> current_item (snd (register session_full_browser empty_storage
          ''Ann@Example.com'' ''s3cret'' ''Ann'' None)) = Absent
     \<and> getCurrentUser (snd (register session_full_browser empty_storage
          ''Ann@Example.com'' ''s3cret'' ''Ann'' None)) = None"
    by (simp add: register_ann setCurrentUser_def current_item_saveUsers getCurrentUser_def)
  have "removeItem_throws locked_browser CURRENT_USER_KEY"
    by (simp add: locked_browser_def)
  then have "logout locked_browser (setCurrentUser example_browser ann_storage ann) =
      setCurrentUser example_browser ann_storage ann"
    by (simp add: logout_def)
  moreover have "\<not> quota_exceeded example_browser CURRENT_USER_KEY"
    by (simp add: example_browser_def)
  ultimately have "getCurrentUser (logout locked_browser
      (setCurrentUser example_browser ann_storage ann)) = Some (userForStorage ann)"
    by (simp add: getCurrentUser_setCurrentUser)
  with registered show ?thesis
    by (intro conjI) (elim conjE, assumption)+
qed

lemma userForStorage_newUser:
  "userForStorage (newUser b e p n m) =
     \<lparr>cu_id = new_user_id b, cu_email = toLowerCase e, cu_name = n,
      cu_avatar = Some PLACEHOLDER_AVATAR, cu_mobileNumber = m\<rparr>"
  by (simp add: userForStorage_def newUser_def)

text \<open>
  C9. \<open>setCurrentUser\<close> writes under the current-user key the projection
  \<open>{id, email, name, avatar, mobileNumber}\<close> of the user, or nothing when the storage
  refuses the write; it leaves the user list alone; and what it stores does not depend on
  the user's password. The same holds for the session item that \<open>register\<close> and \<open>login\<close>
  leave: it is the old item or the projection of a user.
\<close>

theorem session_has_no_password:
  "current_item (setCurrentUser b st user) =
     (if quota_exceeded b CURRENT_USER_KEY then current_item st
      else Stored \<lparr>cu_id = su_id user, cu_email = su_email user, cu_name = su_fullName user,
                   cu_avatar = su_avatar user, cu_mobileNumber = su_mobileNumber user\<rparr>)
   \<and> users_item (setCurrentUser b st user) = users_item st
   \<and> setCurrentUser b st (user\<lparr>su_password := password'\<rparr>) = setCurrentUser b st user
   \<and> current_item (snd (register b st email password fullName mobileNumber)) =
       current_item (snd (register b st email password' fullName mobileNumber))
   \<and> (current_item (snd (login b st email password)) = current_item st
       \<or> (\<exists>u\<in>set (getStoredUsers st).
            current_item (snd (login b st email password)) =
              Stored \<lparr>cu_id = su_id u, cu_email = su_email u, cu_name = su_fullName u,
                      cu_avatar = su_avatar u, cu_mobileNumber = su_mobileNumber u\<rparr>))"
proof (intro conjI)
  show "current_item (setCurrentUser b st user) =
     (if quota_exceeded b CURRENT_USER_KEY then current_item st
      else Stored \<lparr>cu_id = su_id user, cu_email = su_email user, cu_name = su_fullName user,
                   cu_avatar = su_avatar user, cu_mobileNumber = su_mobileNumber user\<rparr>)"
    by (simp add: setCurrentUser_def userForStorage_def)
  show "users_item (setCurrentUser b st user) = users_item st"
    by (simp add: setCurrentUser_def)
  show "setCurrentUser b st (user\<lparr>su_password := password'\<rparr>) = setCurrentUser b st user"
    by (simp add: setCurrentUser_def userForStorage_def)
  show "current_item (snd (register b st email password fullName mobileNumber)) =
       current_item (snd (register b st email password' fullName mobileNumber))"
    by (cases "userExists st email")
      (simp_all add: register_exists register_fresh current_item_setCurrentUser
        current_item_saveUsers userForStorage_newUser)
  show "current_item (snd (login b st email password)) = current_item st
       \<or> (\<exists>u\<in>set (getStoredUsers st).
            current_item (snd (login b st email password)) =
              Stored \<lparr>cu_id = su_id u, cu_email = su_email u, cu_name = su_fullName u,
                      cu_avatar = su_avatar u, cu_mobileNumber = su_mobileNumber u\<rparr>)"
  proof (cases "find (\<lambda>user. same_email email user \<and> su_password user = password)
      (getStoredUsers st)")
    case None
    then have "snd (login b st email password) = st"
      by (simp add: login_def)
    then have "current_item (snd (login b st email password)) = current_item st"
      by (rule arg_cong)
    then show ?thesis
      by (rule disjI1)
  next
    case (Some u)
    then have mem: "u \<in> set (getStoredUsers st)"
      by (rule find_Some_props [THEN conjunct1])
    have cur: "current_item (snd (login b st email password)) =
        (if quota_exceeded b CURRENT_USER_KEY then current_item st else Stored (userForStorage u))"
      using Some by (simp add: login_def current_item_setCurrentUser)
    show ?thesis
    proof (cases "quota_exceeded b CURRENT_USER_KEY")
      case True
      then have "current_item (snd (login b st email password)) = current_item st"
        by (simp add: cur)
      then show ?thesis
        by (rule disjI1)
    next
      case False
      then have "current_item (snd (login b st email password)) =
          Stored \<lparr>cu_id = su_id u, cu_email = su_email u, cu_name = su_fullName u,
                  cu_avatar = su_avatar u, cu_mobileNumber = su_mobileNumber u\<rparr>"
        by (simp add: cur userForStorage_def)
      with mem show ?thesis
        by (intro disjI2 bexI [of _ u])
    qed
  qed
qed

text \<open>
  C10 (amended). A call of \<open>register\<close> that resolves leaves every stored record in
  place and in order, and when the storage takes the write of the user list the new
  record is appended at the end. So \<open>userExists\<close> is monotone: an email that exists
  before a call of \<open>register\<close> exists after it.
\<close>

theorem register_frame_spec:
  "(register b st email password fullName mobileNumber = (Resolved u, st') \<longrightarrow>
      (\<not> quota_exceeded b USERS_STORAGE_KEY \<longrightarrow> getStoredUsers st' = getStoredUsers st @ [u])
      \<and> (quota_exceeded b USERS_STORAGE_KEY \<longrightarrow> getStoredUsers st' = getStoredUsers st)
      \<and> prefix (getStoredUsers st) (getStoredUsers st'))
   \<and> (userExists st e \<longrightarrow>
        userExists (snd (register b st email password fullName mobileNumber)) e)"
proof (intro conjI impI)
  assume r: "register b st email password fullName mobileNumber = (Resolved u, st')"
  have users: "getStoredUsers st' =
      (if quota_exceeded b USERS_STORAGE_KEY then getStoredUsers st else getStoredUsers st @ [u])"
    using register_resolved [OF r]
    by (simp add: getStoredUsers_setCurrentUser getStoredUsers_saveUsers)
  show "getStoredUsers st' = getStoredUsers st @ [u]" if "\<not> quota_exceeded b USERS_STORAGE_KEY"
    using that by (simp add: users)
  show "getStoredUsers st' = getStoredUsers st" if "quota_exceeded b USERS_STORAGE_KEY"
    using that by (simp add: users)
  show "prefix (getStoredUsers st) (getStoredUsers st')"
    by (simp add: users)
next
  assume "userExists st e"
  then show "userExists (snd (register b st email password fullName mobileNumber)) e"
    by (simp add: userExists_def register_users)
qed

lemma bob_fresh: "\<not> userExists ann_storage ''bob@example.com''"
  by code_simp

lemma ann_exists: "userExists ann_storage ''ANN@EXAMPLE.COM''"
  by code_simp

lemma register_bob:
  "register b ann_storage ''bob@example.com'' ''hunter2'' ''Bob'' None =
     (Resolved (newUser b ''bob@example.com'' ''hunter2'' ''Bob'' None),
      setCurrentUser b
        (saveUsers b ann_storage [ann, newUser b ''bob@example.com'' ''hunter2'' ''Bob'' None])
        (newUser b ''bob@example.com'' ''hunter2'' ''Bob'' None))"
proof -
  have "getStoredUsers ann_storage = [ann]"
    by (simp add: getStoredUsers_def ann_storage_def)
  then show ?thesis
    by (simp add: register_fresh [OF bob_fresh])
qed

theorem register_frame_spec_witness:
  "register example_browser ann_storage ''bob@example.com'' ''hunter2'' ''Bob'' None =
     (Resolved (newUser example_browser ''bob@example.com'' ''hunter2'' ''Bob'' None),
      setCurrentUser example_browser
        (saveUsers example_browser ann_storage
           [ann, newUser example_browser ''bob@example.com'' ''hunter2'' ''Bob'' None])
        (newUser example_browser ''bob@example.com'' ''hunter2'' ''Bob'' None))
   \<and> \<not> quota_exceeded example_browser USERS_STORAGE_KEY
   \<and> getStoredUsers (setCurrentUser example_browser
        (saveUsers example_browser ann_storage
           [ann, newUser example_browser ''bob@example.com'' ''hunter2'' ''Bob'' None])
        (newUser example_browser ''bob@example.com'' ''hunter2'' ''Bob'' None)) =
       [ann, newUser example_browser ''bob@example.com'' ''hunter2'' ''Bob'' None]
   \<and> quota_exceeded users_full_browser USERS_STORAGE_KEY
   \<and> getStoredUsers (setCurrentUser users_full_browser
        (saveUsers users_full_browser ann_storage
           [ann, newUser users_full_browser ''bob@example.com'' ''hunter2'' ''Bob'' None])
        (newUser users_full_browser ''bob@example.com'' ''hunter2'' ''Bob'' None)) = [ann]
   \<and> userExists ann_storage ''ANN@EXAMPLE.COM''
   \<and> userExists (snd (register example_browser ann_storage
         ''bob@example.com'' ''hunter2'' ''Bob'' None)) ''ANN@EXAMPLE.COM''"
proof -
  let ?nu = "newUser example_browser ''bob@example.com'' ''hunter2'' ''Bob'' None"
  let ?st = "setCurrentUser example_browser (saveUsers example_browser ann_storage [ann, ?nu]) ?nu"
  have r: "register example_browser ann_storage ''bob@example.com'' ''hunter2'' ''Bob'' None =
      (Resolved ?nu, ?st)"
    by (rule register_bob)
  have quota: "\<not> quota_exceeded example_browser USERS_STORAGE_KEY"
    by (simp add: example_browser_def)
  have users: "getStoredUsers ann_storage = [ann]"
    by (simp add: getStoredUsers_def ann_storage_def)
  note spec = register_frame_spec [of example_browser ann_storage "''bob@example.com''"
      "''hunter2''" "''Bob''" None ?nu ?st "''ANN@EXAMPLE.COM''"]
  note appended = spec [THEN conjunct1, THEN mp, OF r, THEN conjunct1, THEN mp, OF quota]
  note monotone = spec [THEN conjunct2, THEN mp, OF ann_exists]
  have stored: "getStoredUsers ?st = [ann, ?nu]"
    using appended users by simp
  let ?nu' = "newUser users_full_browser ''bob@example.com'' ''hunter2'' ''Bob'' None"
  let ?st' = "setCurrentUser users_full_browser
      (saveUsers users_full_browser ann_storage [ann, ?nu']) ?nu'"
  have full: "quota_exceeded users_full_browser USERS_STORAGE_KEY"
    by (simp add: users_full_browser_def)
  note refused =
    register_frame_spec [of users_full_browser ann_storage "''bob@example.com''"
      "''hunter2''" "''Bob''" None ?nu' ?st',
      THEN conjunct1, THEN mp, OF register_bob, THEN conjunct2, THEN conjunct1, THEN mp, OF full]
  have kept: "getStoredUsers ?st' = [ann]"
    using refused users by simp
  from r quota stored full kept ann_exists monotone show ?thesis
    by (intro conjI)
qed

text \<open>With a storage that refuses the user list, \<open>register\<close> resolves and the stored
  list is what it was: the new record is not appended.\<close>

theorem register_append_counterexample:
  "fst (register users_full_browser ann_storage ''bob@example.com'' ''hunter2'' ''Bob'' None) =
     Resolved (newUser users_full_browser ''bob@example.com'' ''hunter2'' ''Bob'' None)
   \<and> getStoredUsers ann_storage = [ann]
   \<and> getStoredUsers (snd (register users_full_browser ann_storage
        ''bob@example.com'' ''hunter2'' ''Bob'' None)) = [ann]"
proof -
  have "quota_exceeded users_full_browser USERS_STORAGE_KEY"
    by (simp add: users_full_browser_def)
  moreover have "getStoredUsers ann_storage = [ann]"
    by (simp add: getStoredUsers_def ann_storage_def)
  ultimately show ?thesis
    by (simp add: register_bob getStoredUsers_setCurrentUser getStoredUsers_saveUsers)
qed

section \<open>Properties of the payment adapter\<close>

text \<open>
  C4. \<open>processCODPayment\<close> resolves, for every amount, customer and order id, with a
  result whose \<open>success\<close> is true, whose transaction id starts with \<open>COD_\<close>, whose
  payment method is \<open>Cash on Delivery\<close> and whose amount is the given one. The function
  takes no gateway: nothing of the checkout reaches it.
\<close>

theorem cod_payment_spec:
  "\<exists>r. processCODPayment b amount customerInfo orderId = Resolved r
       \<and> pr_success r
       \<and> prefix ''COD_'' (pr_transactionId r)
       \<and> pr_paymentMethod r = ''Cash on Delivery''
       \<and> pr_amount r = amount
       \<and> pr_errorMessage r = None"
  by (simp add: processCODPayment_def)

text \<open>What \<open>processUPIPayment\<close> does once the script is there, the configuration is
  valid and the options are built: it returns the promise of the modal.\<close>

lemma processUPIPayment_modal:
  "script_tag c = Onload \<or> isRazorpayLoaded \<Longrightarrow> config_valid c \<Longrightarrow> options_throw c = None \<Longrightarrow>
     processUPIPayment c b isRazorpayLoaded amount customerInfo orderId = modal_promise c b amount"
  by (auto simp add: processUPIPayment_def loadRazorpayScript_def createOrder_def)

lemma modal_dismissed:
  "constructor_throw c = None \<Longrightarrow> open_throw c = None \<Longrightarrow> modal_events c = Ondismiss # later \<Longrightarrow>
     modal_promise c b amount = Resolved (upi_ondismiss b amount)"
  by (simp add: modal_promise_def)

lemma modal_completed:
  "constructor_throw c = None \<Longrightarrow> open_throw c = None \<Longrightarrow>
   modal_events c = Handler response # later \<Longrightarrow>
     modal_promise c b amount = Resolved (upi_handler b amount response)"
  by (simp add: modal_promise_def)

lemma modal_setup_throws:
  "constructor_throw c = Some error \<Longrightarrow> modal_promise c b amount = Rejected error"
  "constructor_throw c = None \<Longrightarrow> open_throw c = Some error \<Longrightarrow>
     modal_promise c b amount = Rejected error"
  by (simp_all add: modal_promise_def)

text \<open>Before the modal, every exception ends in the \<open>catch\<close> block: the call resolves
  with \<open>success = false\<close>.\<close>

lemma processUPIPayment_before_modal:
  "script_tag c = Onerror \<and> \<not> isRazorpayLoaded \<or> \<not> config_valid c \<or> options_throw c \<noteq> None \<Longrightarrow>
     (\<exists>r. processUPIPayment c b isRazorpayLoaded amount customerInfo orderId = Resolved r
         \<and> \<not> pr_success r \<and> pr_errorMessage r \<noteq> None)
     \<or> processUPIPayment c b isRazorpayLoaded amount customerInfo orderId = Pending"
  by (cases "script_tag c")
    (auto simp add: processUPIPayment_def loadRazorpayScript_def createOrder_def upi_failed_def)

text \<open>
  C5 (the code departs from it). The checkout script has loaded, the configuration is
  valid and the options are built, and \<open>new window.Razorpay(..)\<close> throws: the promise of
  \<open>processUPIPayment\<close> is rejected with that error; it is not resolved with
  \<open>success = false\<close>.
\<close>

theorem upi_setup_exception_rejects:
  "processUPIPayment stubbed_checkout example_browser False (num 1499) example_customer ''ORD-1''
     = Rejected (Error ''window.Razorpay is not a constructor'')"
proof -
  have "script_tag stubbed_checkout = Onload" "config_valid stubbed_checkout"
    "options_throw stubbed_checkout = None"
    "constructor_throw stubbed_checkout = Some (Error ''window.Razorpay is not a constructor'')"
    by (simp_all add: stubbed_checkout_def dismissing_checkout_def)
  then show ?thesis
    by (simp add: processUPIPayment_modal modal_setup_throws)
qed

text \<open>Numbers: a product whose exact value fits in 53 bits is not rounded.\<close>

lemma bitlen_small:
  assumes "N \<noteq> 0" "\<bar>N\<bar> < 2 ^ 53"
  shows "1 \<le> bitlen \<bar>N\<bar>" "bitlen \<bar>N\<bar> \<le> 53"
proof -
  have "bitlen \<bar>N\<bar> \<noteq> 0"
    using assms(1) by (simp add: bitlen_eq_zero_iff)
  then show "1 \<le> bitlen \<bar>N\<bar>"
    using bitlen_nonneg [of "\<bar>N\<bar>"] by linarith
  show "bitlen \<bar>N\<bar> \<le> 53"
    using assms(2) by (simp add: bitlen_le_iff_power)
qed

lemma round_half_even_exact: "round_half_even (a * 2 ^ s) s = a"
  by (simp add: round_half_even_def)

lemma round_double_exact_aux:
  assumes N: "N \<noteq> 0" and len: "bitlen \<bar>N\<bar> = B" and B: "1 \<le> B" "B \<le> 53"
  shows "round_double (N * 2 ^ k) (- int k) = Finite (N * 2 ^ nat (53 - B)) (B - 53)"
proof -
  have pos: "0 < \<bar>N\<bar>"
    using N by simp
  have abs: "\<bar>N * 2 ^ k\<bar> = \<bar>N\<bar> * 2 ^ k"
    by (simp add: abs_mult)
  have "bitlen \<bar>N * 2 ^ k\<bar> = B + int k"
    unfolding abs len [symmetric] using pos by (rule bitlen_pow2)
  then have e': "max (- int k + bitlen \<bar>N * 2 ^ k\<bar> - 53) (- 1074) = B - 53"
    using B by simp
  have nz: "N * 2 ^ k \<noteq> 0"
    using N by simp
  have fin: "finite_or_infinity p m (B - 53) = Finite m (B - 53)" for p m
    using B by (simp add: finite_or_infinity_def)
  have unfold: "round_double (N * 2 ^ k) (- int k) =
      (if B - 53 \<le> - int k then Finite (N * 2 ^ k * 2 ^ nat (- int k - (B - 53))) (B - 53)
       else if round_half_even \<bar>N * 2 ^ k\<bar> (nat (B - 53 - - int k)) = 2 ^ 53
         then finite_or_infinity (0 < N * 2 ^ k) (sgn (N * 2 ^ k) * 2 ^ 52) (B - 53 + 1)
         else Finite (sgn (N * 2 ^ k) * round_half_even \<bar>N * 2 ^ k\<bar> (nat (B - 53 - - int k)))
                (B - 53))"
    unfolding round_double_def Let_def e' fin using nz by (simp only: if_False)
  show ?thesis
  proof (cases "B - 53 \<le> - int k")
    case True
    then have "k + nat (- int k - (B - 53)) = nat (53 - B)"
      by linarith
    then have "N * 2 ^ k * 2 ^ nat (- int k - (B - 53)) = N * 2 ^ nat (53 - B)"
      by (simp only: mult.assoc power_add [symmetric])
    with True show ?thesis
      by (simp only: unfold if_True)
  next
    case False
    define j where "j = nat (B - 53 - - int k)"
    have j: "j \<le> k" "k - j = nat (53 - B)"
      using False B unfolding j_def by linarith+
    have "\<bar>N\<bar> * 2 ^ k = (\<bar>N\<bar> * 2 ^ (k - j)) * 2 ^ j"
      using j(1) by (simp only: mult.assoc power_add [symmetric]) simp
    then have q: "round_half_even \<bar>N * 2 ^ k\<bar> j = \<bar>N\<bar> * 2 ^ nat (53 - B)"
      unfolding abs by (simp only: round_half_even_exact j(2))
    have "\<bar>N\<bar> < 2 ^ nat B"
      using bitlen_bounds [OF pos] len by simp
    then have "\<bar>N\<bar> * 2 ^ nat (53 - B) < 2 ^ nat B * 2 ^ nat (53 - B)"
      by simp
    also have "nat B + nat (53 - B) = 53"
      using B by linarith
    then have "(2::int) ^ nat B * 2 ^ nat (53 - B) = 2 ^ 53"
      by (simp only: power_add [symmetric])
    finally have small: "\<bar>N\<bar> * 2 ^ nat (53 - B) \<noteq> 2 ^ 53"
      by simp
    have "sgn (N * 2 ^ k) = sgn N"
      by (simp add: sgn_mult)
    then have sign: "sgn (N * 2 ^ k) * (\<bar>N\<bar> * 2 ^ nat (53 - B)) = N * 2 ^ nat (53 - B)"
      by (simp only: mult.assoc [symmetric] sgn_mult_abs)
    from False small show ?thesis
      by (simp only: unfold j_def [symmetric] q sign if_False)
  qed
qed

lemma round_double_exact:
  assumes "N \<noteq> 0" "\<bar>N\<bar> < 2 ^ 53"
  shows "round_double (N * 2 ^ k) (- int k) =
           Finite (N * 2 ^ nat (53 - bitlen \<bar>N\<bar>)) (bitlen \<bar>N\<bar> - 53)"
  using assms(1) refl bitlen_small [OF assms] by (rule round_double_exact_aux)

lemma num_small:
  assumes "N \<noteq> 0" "\<bar>N\<bar> < 2 ^ 53"
  shows "num N = Finite (N * 2 ^ nat (53 - bitlen \<bar>N\<bar>)) (bitlen \<bar>N\<bar> - 53)"
  using round_double_exact [OF assms, of 0] by (simp add: num_def)

lemma num_0: "num 0 = Finite 0 (- 1074)"
  by (simp add: num_def round_double_def)

lemma num_100: "num 100 = Finite (100 * 2 ^ 46) (- 46)"
  by code_simp

lemma times_100_whole:
  assumes "\<bar>100 * n\<bar> < 2 ^ 53"
  shows "js_times (num n) (num 100) = num (100 * n)"
proof (cases "n = 0")
  case True
  then show ?thesis
    by (simp add: num_0 num_100 round_double_def)
next
  case False
  have n: "\<bar>n\<bar> < 2 ^ 53"
    using assms by linarith
  define b where "b = bitlen \<bar>n\<bar>"
  have b: "1 \<le> b" "b \<le> 53"
    using bitlen_small [OF False n] by (simp_all add: b_def)
  define k where "k = nat (53 - b) + 46"
  have N: "100 * n \<noteq> 0"
    using False by simp
  have "js_times (num n) (num 100) =
      round_double (n * 2 ^ nat (53 - b) * (100 * 2 ^ 46)) (b - 53 + - 46)"
    by (simp only: num_small [OF False n] num_100 b_def js_times.simps)
  also have "n * 2 ^ nat (53 - b) * (100 * 2 ^ 46) = 100 * n * 2 ^ k"
    by (simp add: k_def power_add)
  also have "b - 53 + - 46 = - int k"
    using b by (simp add: k_def)
  also have "round_double (100 * n * 2 ^ k) (- int k) = num (100 * n)"
    by (simp only: round_double_exact [OF N assms] num_small [OF N assms])
  finally show ?thesis .
qed

lemma exactly_times_whole:
  assumes "\<bar>100 * n\<bar> < 2 ^ 53"
  shows "exactly_times 100 (num n) (num (100 * n))"
proof (cases "n = 0")
  case True
  then show ?thesis
    by (simp add: num_0 exactly_times_def)
next
  case False
  have n: "\<bar>n\<bar> < 2 ^ 53"
    using assms by linarith
  have N: "100 * n \<noteq> 0"
    using False by simp
  define b where "b = bitlen \<bar>n\<bar>"
  define B where "B = bitlen \<bar>100 * n\<bar>"
  have b: "1 \<le> b" "b \<le> 53"
    using bitlen_small [OF False n] by (simp_all add: b_def)
  have B: "1 \<le> B" "B \<le> 53"
    using bitlen_small [OF N assms] by (simp_all add: B_def)
  have "\<bar>n\<bar> \<le> \<bar>100 * n\<bar>"
    by (simp add: abs_mult)
  then have "b \<le> B"
    unfolding b_def B_def bitlen_def by (intro of_nat_mono floorlog_mono) simp
  then have min: "min (b - 53) (B - 53) = b - 53"
    by simp
  have "nat (53 - B) + nat (B - b) = nat (53 - b)"
    using \<open>b \<le> B\<close> B by linarith
  then have "(2::int) ^ nat (53 - B) * 2 ^ nat (B - b) = 2 ^ nat (53 - b)"
    by (simp only: power_add [symmetric])
  then have "100 * n * 2 ^ nat (53 - B) * 2 ^ nat (B - 53 - (b - 53)) =
      100 * (n * 2 ^ nat (53 - b)) * 2 ^ nat (b - 53 - (b - 53))"
    by (simp add: mult.assoc)
  then show ?thesis
    by (simp only: exactly_times_def num_small [OF False n] num_small [OF N assms]
        b_def [symmetric] B_def [symmetric] min prod.case number.case)
qed

lemma createOrder_valid:
  "config_valid c \<Longrightarrow>
     createOrder c b orderRequest =
       Resolved
         \<lparr>ord_id = ''order_'' @ string_of_nat (date_now b 0) @ ''_''
                    @ substring 2 8 (math_random b 0),
          ord_entity = ''order'',
          ord_amount = js_times (req_amount orderRequest) (num 100),
          ord_amount_paid = num 0,
          ord_amount_due = js_times (req_amount orderRequest) (num 100),
          ord_currency = req_currency orderRequest,
          ord_receipt = req_receipt orderRequest,
          ord_status = ''created'',
          ord_attempts = 0,
          ord_notes = (case req_notes orderRequest of None \<Rightarrow> [] | Some notes \<Rightarrow> notes),
          ord_created_at = date_now b 1 div 1000\<rparr>"
  by (simp only: createOrder_def simp_thms if_False)

text \<open>
  C7 (amended). When \<open>validateRazorpayConfig()\<close> holds, \<open>createOrder\<close> resolves with an
  order whose \<open>amount\<close> and \<open>amount_due\<close> are the double product of the requested amount
  and 100, whose \<open>amount_paid\<close> is 0, whose status is \<open>created\<close>, whose currency and
  receipt are the request's, and whose id is \<open>order_\<close>, the clock reading, \<open>_\<close> and six
  characters of a random number: made here from the clock and the random source, not from
  the request or a backend. For a whole amount \<open>n\<close> with \<open>\<bar>100 * n\<bar> < 2 ^ 53\<close> the
  product is not rounded: \<open>amount\<close> and \<open>amount_due\<close> are exactly 100 times the requested
  amount. When \<open>validateRazorpayConfig()\<close> fails, \<open>createOrder\<close> rejects with
  \<open>Razorpay configuration is invalid\<close>.
\<close>

theorem create_order_spec:
  "(config_valid c \<longrightarrow>
      (\<exists>order. createOrder c b orderRequest = Resolved order
         \<and> ord_amount order = js_times (req_amount orderRequest) (num 100)
         \<and> ord_amount_due order = js_times (req_amount orderRequest) (num 100)
         \<and> ord_amount_paid order = num 0
         \<and> ord_status order = ''created''
         \<and> ord_currency order = req_currency orderRequest
         \<and> ord_receipt order = req_receipt orderRequest
         \<and> ord_id order =
             ''order_'' @ string_of_nat (date_now b 0) @ ''_'' @ substring 2 8 (math_random b 0)
         \<and> (req_amount orderRequest = num n \<and> \<bar>100 * n\<bar> < 2 ^ 53 \<longrightarrow>
              ord_amount order = num (100 * n)
              \<and> ord_amount_due order = num (100 * n)
              \<and> exactly_times 100 (req_amount orderRequest) (ord_amount order)
              \<and> exactly_times 100 (req_amount orderRequest) (ord_amount_due order))))
   \<and> (\<not> config_valid c \<longrightarrow>
        createOrder c b orderRequest = Rejected (Error ''Razorpay configuration is invalid''))"
proof (intro conjI impI)
  assume valid: "config_valid c"
  show "\<exists>order. createOrder c b orderRequest = Resolved order
         \<and> ord_amount order = js_times (req_amount orderRequest) (num 100)
         \<and> ord_amount_due order = js_times (req_amount orderRequest) (num 100)
         \<and> ord_amount_paid order = num 0
         \<and> ord_status order = ''created''
         \<and> ord_currency order = req_currency orderRequest
         \<and> ord_receipt order = req_receipt orderRequest
         \<and> ord_id order =
             ''order_'' @ string_of_nat (date_now b 0) @ ''_'' @ substring 2 8 (math_random b 0)
         \<and> (req_amount orderRequest = num n \<and> \<bar>100 * n\<bar> < 2 ^ 53 \<longrightarrow>
              ord_amount order = num (100 * n)
              \<and> ord_amount_due order = num (100 * n)
              \<and> exactly_times 100 (req_amount orderRequest) (ord_amount order)
              \<and> exactly_times 100 (req_amount orderRequest) (ord_amount_due order))"
  proof (intro exI conjI impI)
    show "createOrder c b orderRequest =
       Resolved
         \<lparr>ord_id = ''order_'' @ string_of_nat (date_now b 0) @ ''_''
                    @ substring 2 8 (math_random b 0),
          ord_entity = ''order'',
          ord_amount = js_times (req_amount orderRequest) (num 100),
          ord_amount_paid = num 0,
          ord_amount_due = js_times (req_amount orderRequest) (num 100),
          ord_currency = req_currency orderRequest,
          ord_receipt = req_receipt orderRequest,
          ord_status = ''created'',
          ord_attempts = 0,
          ord_notes = (case req_notes orderRequest of None \<Rightarrow> [] | Some notes \<Rightarrow> notes),
          ord_created_at = date_now b 1 div 1000\<rparr>"
      using valid by (rule createOrder_valid)
  next
    assume whole: "req_amount orderRequest = num n \<and> \<bar>100 * n\<bar> < 2 ^ 53"
    then have product: "js_times (req_amount orderRequest) (num 100) = num (100 * n)"
      by (simp add: times_100_whole)
    have exact: "exactly_times 100 (req_amount orderRequest) (num (100 * n))"
      using whole by (simp add: exactly_times_whole)
    show "ord_amount \<lparr>ord_id = ''order_'' @ string_of_nat (date_now b 0) @ ''_''
                    @ substring 2 8 (math_random b 0),
          ord_entity = ''order'',
          ord_amount = js_times (req_amount orderRequest) (num 100),
          ord_amount_paid = num 0,
          ord_amount_due = js_times (req_amount orderRequest) (num 100),
          ord_currency = req_currency orderRequest,
          ord_receipt = req_receipt orderRequest,
          ord_status = ''created'',
          ord_attempts = 0,
          ord_notes = (case req_notes orderRequest of None \<Rightarrow> [] | Some notes \<Rightarrow> notes),
          ord_created_at = date_now b 1 div 1000\<rparr> = num (100 * n)"
      by (simp add: product)
    show "ord_amount_due \<lparr>ord_id = ''order_'' @ string_of_nat (date_now b 0) @ ''_''
                    @ substring 2 8 (math_random b 0),
          ord_entity = ''order'',
          ord_amount = js_times (req_amount orderRequest) (num 100),
          ord_amount_paid = num 0,
          ord_amount_due = js_times (req_amount orderRequest) (num 100),
          ord_currency = req_currency orderRequest,
          ord_receipt = req_receipt orderRequest,
          ord_status = ''created'',
          ord_attempts = 0,
          ord_notes = (case req_notes orderRequest of None \<Rightarrow> [] | Some notes \<Rightarrow> notes),
          ord_created_at = date_now b 1 div 1000\<rparr> = num (100 * n)"
      by (simp add: product)
    show "exactly_times 100 (req_amount orderRequest)
       (ord_amount \<lparr>ord_id = ''order_'' @ string_of_nat (date_now b 0) @ ''_''
                    @ substring 2 8 (math_random b 0),
          ord_entity = ''order'',
          ord_amount = js_times (req_amount orderRequest) (num 100),
          ord_amount_paid = num 0,
          ord_amount_due = js_times (req_amount orderRequest) (num 100),
          ord_currency = req_currency orderRequest,
          ord_receipt = req_receipt orderRequest,
          ord_status = ''created'',
          ord_attempts = 0,
          ord_notes = (case req_notes orderRequest of None \<Rightarrow> [] | Some notes \<Rightarrow> notes),
          ord_created_at = date_now b 1 div 1000\<rparr>)"
      using exact by (simp add: product)
    show "exactly_times 100 (req_amount orderRequest)
       (ord_amount_due \<lparr>ord_id = ''order_'' @ string_of_nat (date_now b 0) @ ''_''
                    @ substring 2 8 (math_random b 0),
          ord_entity = ''order'',
          ord_amount = js_times (req_amount orderRequest) (num 100),
          ord_amount_paid = num 0,
          ord_amount_due = js_times (req_amount orderRequest) (num 100),
          ord_currency = req_currency orderRequest,
          ord_receipt = req_receipt orderRequest,
          ord_status = ''created'',
          ord_attempts = 0,
          ord_notes = (case req_notes orderRequest of None \<Rightarrow> [] | Some notes \<Rightarrow> notes),
          ord_created_at = date_now b 1 div 1000\<rparr>)"
      using exact by (simp add: product)
  qed simp_all
next
  assume "\<not> config_valid c"
  then show "createOrder c b orderRequest =
      Rejected (Error ''Razorpay configuration is invalid'')"
    by (simp add: createOrder_def)
qed

theorem create_order_spec_witness:
  "config_valid dismissing_checkout
   \<and> req_amount example_request = num 1499
   \<and> \<bar>100 * 1499\<bar> < (2::int) ^ 53
   \<and> (\<exists>order. createOrder dismissing_checkout example_browser example_request = Resolved order
         \<and> ord_amount order = num (100 * 1499)
         \<and> ord_amount_due order = num (100 * 1499)
         \<and> exactly_times 100 (req_amount example_request) (ord_amount order)
         \<and> ord_amount_paid order = num 0
         \<and> ord_status order = ''created'')
   \<and> num (100 * 1499) = Finite 5150524781363200 (- 35)
   \<and> \<not> config_valid invalid_checkout
   \<and> createOrder invalid_checkout example_browser example_request =
       Rejected (Error ''Razorpay configuration is invalid'')"
proof -
  have valid: "config_valid dismissing_checkout"
    by (simp add: dismissing_checkout_def)
  have invalid: "\<not> config_valid invalid_checkout"
    by (simp add: invalid_checkout_def dismissing_checkout_def)
  have amount: "req_amount example_request = num 1499"
    by (simp add: example_request_def)
  have small: "\<bar>100 * 1499\<bar> < (2::int) ^ 53"
    by simp
  have nearest: "num (100 * 1499) = Finite 5150524781363200 (- 35)"
    by code_simp
  note resolved =
    create_order_spec [of dismissing_checkout example_browser example_request 1499,
      THEN conjunct1, THEN mp, OF valid]
  note rejected =
    create_order_spec [of invalid_checkout example_browser example_request 1499,
      THEN conjunct2, THEN mp, OF invalid]
  from resolved obtain order where order:
    "createOrder dismissing_checkout example_browser example_request = Resolved order"
    "ord_amount_paid order = num 0" "ord_status order = ''created''"
    and whole:
    "req_amount example_request = num 1499 \<and> \<bar>100 * 1499\<bar> < (2::int) ^ 53 \<longrightarrow>
       ord_amount order = num (100 * 1499)
       \<and> ord_amount_due order = num (100 * 1499)
       \<and> exactly_times 100 (req_amount example_request) (ord_amount order)
       \<and> exactly_times 100 (req_amount example_request) (ord_amount_due order)"
    by (elim exE conjE)
  note amounts = whole [THEN mp, OF conjI, OF amount small]
  have "\<exists>order. createOrder dismissing_checkout example_browser example_request = Resolved order
         \<and> ord_amount order = num (100 * 1499)
         \<and> ord_amount_due order = num (100 * 1499)
         \<and> exactly_times 100 (req_amount example_request) (ord_amount order)
         \<and> ord_amount_paid order = num 0
         \<and> ord_status order = ''created''"
    using order amounts [THEN conjunct1] amounts [THEN conjunct2, THEN conjunct1]
      amounts [THEN conjunct2, THEN conjunct2, THEN conjunct1]
    by (intro exI [of _ order] conjI)
  with valid amount small nearest invalid rejected show ?thesis
    by (intro conjI)
qed

text \<open>
  With a configuration that does not validate, \<open>createOrder\<close> rejects the request. With
  a valid one and the amount 19.99, the order's amount is \<open>8791694975696895 * 2 ^ - 42\<close>
  (printed 1998.9999999999998), which is not 100 times the requested amount.
\<close>

theorem create_order_counterexample:
  "createOrder invalid_checkout example_browser example_request =
     Rejected (Error ''Razorpay configuration is invalid'')
   \<and> map_promise ord_amount (createOrder dismissing_checkout example_browser paise_request) =
       Resolved (Finite 8791694975696895 (- 42))
   \<and> map_promise ord_amount_due (createOrder dismissing_checkout example_browser paise_request) =
       Resolved (Finite 8791694975696895 (- 42))
   \<and> \<not> exactly_times 100 (req_amount paise_request) (Finite 8791694975696895 (- 42))"
proof (intro conjI)
  have "\<not> config_valid invalid_checkout"
    by (simp add: invalid_checkout_def dismissing_checkout_def)
  then show "createOrder invalid_checkout example_browser example_request =
     Rejected (Error ''Razorpay configuration is invalid'')"
    by (simp add: createOrder_def)
  have valid: "config_valid dismissing_checkout"
    by (simp add: dismissing_checkout_def)
  have amount: "req_amount paise_request = Finite 5626684784446013 (- 48)"
    by (simp add: paise_request_def)
  have product: "js_times (Finite 5626684784446013 (- 48)) (num 100) =
      Finite 8791694975696895 (- 42)"
    by code_simp
  show "map_promise ord_amount (createOrder dismissing_checkout example_browser paise_request) =
       Resolved (Finite 8791694975696895 (- 42))"
    by (simp add: createOrder_valid [OF valid] amount product)
  show "map_promise ord_amount_due
       (createOrder dismissing_checkout example_browser paise_request) =
       Resolved (Finite 8791694975696895 (- 42))"
    by (simp add: createOrder_valid [OF valid] amount product)
  have "\<not> exactly_times 100 (Finite 5626684784446013 (- 48)) (Finite 8791694975696895 (- 42))"
    by code_simp
  then show "\<not> exactly_times 100 (req_amount paise_request) (Finite 8791694975696895 (- 42))"
    by (simp add: amount)
qed

lemma create_order_invalid_config:
  "\<not> config_valid c \<Longrightarrow>
     createOrder c b orderRequest = Rejected (Error ''Razorpay configuration is invalid'')"
  by (simp add: createOrder_def)

text \<open>
  C8. \<open>getPaymentStatus\<close> resolves, for every payment id, with status \<open>captured\<close> and
  \<open>captured = true\<close>; the answer for another id is the same record with only the \<open>id\<close>
  field changed.
\<close>

theorem payment_status_spec:
  "\<exists>s. getPaymentStatus b paymentId = Resolved s
       \<and> ps_id s = paymentId
       \<and> ps_status s = ''captured''
       \<and> ps_captured s
       \<and> getPaymentStatus b paymentId' = Resolved (s\<lparr>ps_id := paymentId'\<rparr>)"
  by (simp add: getPaymentStatus_def)

section \<open>Properties of the QR countdown\<close>

lemma qr_ticks:
  "(tick ^^ k) (setPaymentMode Qr initial_view) =
     (if k < 180
      then \<lparr>paymentMode = Qr, timer = 180 - int k, isExpired = False, interval_running = True\<rparr>
      else \<lparr>paymentMode = Qr, timer = 0, isExpired = True, interval_running = False\<rparr>)"
proof (induction k)
  case 0
  show ?case
    by (simp add: setPaymentMode_def initial_view_def)
next
  case (Suc k)
  show ?case
    by (simp only: funpow.simps o_apply Suc.IH) (simp add: tick_def countdown_def)
qed

text \<open>
  C6. From the view as \<open>setPaymentMode('qr')\<close> leaves it (timer 180, interval running),
  after \<open>k\<close> ticks with \<open>k < 180\<close> the timer is \<open>180 - k\<close>, the view is not expired and
  the interval runs; after 180 ticks and any number more the timer is 0, the view is
  expired and the interval is cleared, so a further tick changes nothing.
  \<open>resetToSelection\<close> puts the timer back to 180 and clears the expiry.
\<close>

theorem qr_countdown_spec:
  "(tick ^^ k) (setPaymentMode Qr initial_view) =
     (if k < 180
      then \<lparr>paymentMode = Qr, timer = 180 - int k, isExpired = False, interval_running = True\<rparr>
      else \<lparr>paymentMode = Qr, timer = 0, isExpired = True, interval_running = False\<rparr>)
   \<and> tick ((tick ^^ (180 + k)) (setPaymentMode Qr initial_view)) =
       (tick ^^ (180 + k)) (setPaymentMode Qr initial_view)
   \<and> resetToSelection ((tick ^^ (180 + k)) (setPaymentMode Qr initial_view)) = initial_view"
proof (intro conjI)
  have expired: "(tick ^^ (180 + k)) (setPaymentMode Qr initial_view) =
      \<lparr>paymentMode = Qr, timer = 0, isExpired = True, interval_running = False\<rparr>"
    by (simp add: qr_ticks)
  show "(tick ^^ k) (setPaymentMode Qr initial_view) =
     (if k < 180
      then \<lparr>paymentMode = Qr, timer = 180 - int k, isExpired = False, interval_running = True\<rparr>
      else \<lparr>paymentMode = Qr, timer = 0, isExpired = True, interval_running = False\<rparr>)"
    by (rule qr_ticks)
  show "tick ((tick ^^ (180 + k)) (setPaymentMode Qr initial_view)) =
       (tick ^^ (180 + k)) (setPaymentMode Qr initial_view)"
    by (simp only: expired) (simp add: tick_def)
  show "resetToSelection ((tick ^^ (180 + k)) (setPaymentMode Qr initial_view)) = initial_view"
    by (simp only: expired) (simp add: resetToSelection_def setPaymentMode_def initial_view_def)
qed

end
